theory Spec2Isabelle
  imports Complex_Main "HOL-Library.Sublist"
begin

section \<open>Values\<close>

text \<open>
  \<^verbatim>\<open>Symbol.for(key)\<close> reads the global symbol registry: the same key gives the same
  symbol, different keys give different symbols. A constructor over the key is injective
  in the same way.
\<close>

datatype js_symbol = Symbol_for string

text \<open>\<^verbatim>\<open>PsychoJS.Status\<close> (PsychoJS.js, lines 858-868), entry by entry.\<close>

definition CONFIGURED :: js_symbol where "CONFIGURED = Symbol_for ''CONFIGURED''"
definition CONFIGURING :: js_symbol where "CONFIGURING = Symbol_for ''CONFIGURING''"
definition ERROR :: js_symbol where "ERROR = Symbol_for ''ERROR''"
definition FINISHED :: js_symbol where "FINISHED = Symbol_for ''FINISHED''"
definition NOT_CONFIGURED :: js_symbol where "NOT_CONFIGURED = Symbol_for ''NOT_CONFIGURED''"
definition NOT_STARTED :: js_symbol where "NOT_STARTED = Symbol_for ''NOT_STARTED''"
definition PAUSED :: js_symbol where "PAUSED = Symbol_for ''PAUSED''"
definition STARTED :: js_symbol where "STARTED = Symbol_for ''STARTED''"
definition STOPPED :: js_symbol where "STOPPED = Symbol_for ''FINISHED''"



text \<open>
  JSON values, for the entries of the configuration file that PsychoJS.js stores and
  never inspects (names, paths, URLs, identifiers).
\<close>

datatype json =
    JNull
  | JBool bool
  | JNum real
  | JStr string
  | JArr "json list"
  | JObj "(string \<times> json) list"

text \<open>
  What the configuration holds under the key of a block: an object, or a value that is not
  an object (\<^verbatim>\<open>null\<close>, a boolean, a number, a string). On a value that is not an object the
  \<^verbatim>\<open>in\<close> operator throws a \<^verbatim>\<open>TypeError\<close>, reading a property of one of its properties throws
  a \<^verbatim>\<open>TypeError\<close>, and so does assigning to one of its properties (the file is a module, so
  it runs in strict mode). A JSON array is an object; it has none of the keys the class
  looks for.
\<close>

datatype primitive = PNull | PBool bool | PNum real | PStr string

datatype 'a block = Object (the_object: 'a) | Primitive primitive

text \<open>
  What a \<^verbatim>\<open>throw\<close> carries: a string (\<^verbatim>\<open>throw "missing ..."\<close>), a \<^verbatim>\<open>TypeError\<close> raised by
  the engine (a property access through \<^verbatim>\<open>undefined\<close> or \<^verbatim>\<open>null\<close>, \<^verbatim>\<open>in\<close> on a value that is not
  an object), or the object
  \<^verbatim>\<open>{origin, context, error}\<close> every \<^verbatim>\<open>catch\<close> of the class builds around the error it caught.
  The collaborators (server manager, experiment handler, logger) reject with values of the
  same type.
\<close>

datatype js_error =
    ErrString string
  | ErrTypeError
  | ErrObject string string js_error

datatype outcome = Returns | Throws js_error

text \<open>Sequencing of statements that may throw, and \<^verbatim>\<open>try { ... } catch (error) { ... }\<close>.\<close>

definition andThen :: "outcome \<times> 's \<Rightarrow> ('s \<Rightarrow> outcome \<times> 's) \<Rightarrow> outcome \<times> 's" where
  "andThen r f = (case r of (Returns, s) \<Rightarrow> f s | (Throws e, s) \<Rightarrow> (Throws e, s))"

definition catch :: "outcome \<times> 's \<Rightarrow> (js_error \<Rightarrow> 's \<Rightarrow> outcome \<times> 's) \<Rightarrow> outcome \<times> 's" where
  "catch r h = (case r of (Returns, s) \<Rightarrow> (Returns, s) | (Throws e, s) \<Rightarrow> h e s)"

text \<open>
  \<^verbatim>\<open>s.indexOf(p)\<close>: the least position at which \<^verbatim>\<open>p\<close> occurs in \<^verbatim>\<open>s\<close>, or \<^verbatim>\<open>-1\<close>.
\<close>

fun indexOf_from :: "nat \<Rightarrow> string \<Rightarrow> string \<Rightarrow> int" where
  "indexOf_from i [] p = (if p = [] then int i else - 1)"
| "indexOf_from i (c # cs) p =
     (if prefix p (c # cs) then int i else indexOf_from (Suc i) cs p)"

definition indexOf :: "string \<Rightarrow> string \<Rightarrow> int" where
  "indexOf s p = indexOf_from 0 s p"

section \<open>The configuration\<close>

text \<open>
  Modelled from the spec: \<^verbatim>\<open>ExperimentHandler.Environment\<close> and
  \<^verbatim>\<open>ExperimentHandler.SaveFormat\<close> live in ExperimentHandler.js, which is not among the
  sources. The spec gives the environment as \<^verbatim>\<open>LOCAL|SERVER\<close> and the save formats as CSV,
  delimited text and structured JSON log.
\<close>

datatype Environment = LOCAL | SERVER

datatype SaveFormat = CSV | DELIMITED | JSONLOG

text \<open>
  The configuration is a JavaScript object. The code tests keys with \<^verbatim>\<open>in\<close>, so every key
  is an option: \<open>None\<close> is an absent key. The three blocks the class looks into
  (\<^verbatim>\<open>experiment\<close>, \<^verbatim>\<open>pavlovia\<close>, \<^verbatim>\<open>gitlab\<close>) come from the configuration file and hold an object
  or a value that is not one. Keys the class never touches are left out.
\<close>

record resultsUpload =
  intervalId :: int
  period :: real
  lastUploadTimestamp :: "real option"

record experiment_block =
  name :: "json option"
  fullpath :: "json option"
  keys :: "json option"
  saveFormat :: "SaveFormat option"
  saveIncompleteResults :: "bool option"
  resultsUpload :: "resultsUpload option"

record pavlovia_block =
  URL :: "json option"

record gitlab_block =
  projectId :: "json option"

record session_block =
  status :: "string option"

record config =
  environment :: "Environment option"
  experiment' :: "experiment_block block option"
  pavlovia :: "pavlovia_block block option"
  gitlab :: "gitlab_block block option"
  psychoJsManager :: "json option"
  session :: "session_block option"

section \<open>The collaborators\<close>

text \<open>
  Every call that leaves the class is recorded, in order, with its arguments. Console
  logging is not recorded.
\<close>

datatype event =
    GetConfiguration string
  | GetParticipantIPInfo
  | NewExperimentHandler
  | OpenSession "(string \<times> string) list"
  | AddEventListener string
  | RemoveEventListener string
  | SetInterval real
  | ClearInterval int
  | PrepareResources "(string \<times> string) list"
  | AddData string string
  | NextEntry
  | SchedulerStart
  | SchedulerStop
  | FinishDialog nat
  | FinishDialogNextStep string
  | GuiDialogWarning
  | GuiDialogMessage string
  | GuiCloseDialog
  | ExperimentSave bool
  | LoggerFlush
  | CloseSession bool bool
  | WindowClose
  | RemoveBodyChildren
  | WindowCloseFullScreen
  | Redirect string

text \<open>
  What the browser and the collaborators answer. ServerManager.js, ExperimentHandler.js,
  Logger.js, Window.js and Util.js are not among the sources, so their answers are
  parameters: the page address, the query parameters in the order
  \<^verbatim>\<open>URLSearchParams.forEach\<close> visits them, the fetched configuration or the error of the
  fetch, the configuration \<^verbatim>\<open>openSession\<close> leaves behind (it shares the object) or its error,
  the errors of \<^verbatim>\<open>closeSession\<close>, \<^verbatim>\<open>save\<close> and \<^verbatim>\<open>flush\<close> (\<open>None\<close>: the promise resolves), the
  identifier \<^verbatim>\<open>setInterval\<close> hands out, \<^verbatim>\<open>Window.checkWebGLSupport()\<close>, and the object
  \<^verbatim>\<open>new ExperimentHandler\<close> returns, of which the class writes two properties. The fetched
  configuration is the object \<^verbatim>\<open>serverResponse.config\<close>. The product of two numbers is a
  parameter as well: the engine multiplies doubles and rounds, which is not the product of
  the reals.
\<close>

record experimentHandler =
  experimentEnded :: bool
  isCompleted :: bool

record env =
  location_href :: string
  getUrlParameters :: "(string \<times> string) list"
  getConfiguration :: "string \<Rightarrow> js_error + config"
  openSession :: "(string \<times> string) list \<Rightarrow> config \<Rightarrow> js_error + config"
  closeSession :: "bool \<Rightarrow> js_error option"
  experiment_save :: "js_error option"
  logger_flush :: "js_error option"
  setInterval :: int
  multiply :: "real \<Rightarrow> real \<Rightarrow> real"
  webGLSupport :: bool
  newExperimentHandler :: experimentHandler

section \<open>The PsychoJS object\<close>

record psychoJS =
  this_hosts :: "string list"
  this_collectIP :: bool
  this_window :: bool
  this_completionUrl :: "string option"
  this_cancellationUrl :: "string option"
  this_surveyId :: "string option"
  this_status :: js_symbol
  this_autoStartScheduler :: bool
  this_checkWebGLSupport :: bool
  this_saveResults :: bool
  this_config :: "config option"
  this_serverMsg :: "(string \<rightharpoonup> string) option"
  this_IP :: "(string \<times> string) list option"
  this_experiment :: "experimentHandler option"
  effects :: "event list"

definition call :: "event \<Rightarrow> psychoJS \<Rightarrow> psychoJS" where
  "call ev s = s\<lparr>effects := effects s @ [ev]\<rparr>"

subsection \<open>The constructor (lines 33-121)\<close>

record options =
  opt_autoStartScheduler :: bool
  opt_checkWebGLSupport :: bool
  opt_collectIP :: bool
  opt_hosts :: "string list"
  opt_saveResults :: bool

text \<open>\<^verbatim>\<open>Array.from(new Set(xs))\<close>: the first occurrence of each element, in order.\<close>

fun uniq :: "'a list \<Rightarrow> 'a list \<Rightarrow> 'a list" where
  "uniq seen [] = []"
| "uniq seen (x # xs) = (if x \<in> set seen then uniq seen xs else x # uniq (x # seen) xs)"

definition pavloviaHosts :: "string list \<Rightarrow> string list" where
  "pavloviaHosts hosts =
     uniq [] ([''https://devlovia.org/run/'', ''https://pavlovia.org/run/'',
               ''https://run.devlovia.org/'', ''https://run.pavlovia.org/''] @ hosts)"

definition new_PsychoJS :: "options \<Rightarrow> psychoJS" where
  "new_PsychoJS opts =
     \<lparr> this_hosts = pavloviaHosts (opt_hosts opts),
       this_collectIP = opt_collectIP opts,
       this_window = False,
       this_completionUrl = None,
       this_cancellationUrl = None,
       this_surveyId = None,
       this_status = NOT_CONFIGURED,
       this_autoStartScheduler = opt_autoStartScheduler opts,
       this_checkWebGLSupport = opt_checkWebGLSupport opts,
       this_saveResults = opt_saveResults opts,
       this_config = None,
       this_serverMsg = None,
       this_IP = None,
       this_experiment = None,
       effects = [] \<rparr>"

definition default_options :: options where
  "default_options =
     \<lparr> opt_autoStartScheduler = True, opt_checkWebGLSupport = False, opt_collectIP = False,
       opt_hosts = [], opt_saveResults = True \<rparr>"

subsection \<open>\<^verbatim>\<open>_configure\<close> (lines 256-347)\<close>

definition isHost :: "string list \<Rightarrow> string \<Rightarrow> bool" where
  "isHost hosts experimentUrl = list_ex (\<lambda>url. indexOf experimentUrl url = 0) hosts"

text \<open>Lines 276-283: the legacy block is deleted and a new pavlovia block is assigned.\<close>

definition update_legacy :: "config \<Rightarrow> config" where
  "update_legacy c =
     (if psychoJsManager c \<noteq> None
      then c\<lparr> psychoJsManager := None,
              pavlovia := Some (Object \<lparr> URL = Some (JStr ''https://pavlovia.org'') \<rparr>) \<rparr>
      else c)"

text \<open>
  Lines 285-306: what the first test that throws throws, \<open>None\<close> when none does. A test
  \<^verbatim>\<open>"key" in this._config.block\<close> on a block that is not an object throws a \<^verbatim>\<open>TypeError\<close>.
\<close>

definition essential_blocks :: "config \<Rightarrow> js_error option" where
  "essential_blocks c =
     (case experiment' c of
        None \<Rightarrow> Some (ErrString ''missing experiment block in configuration'')
      | Some (Primitive v) \<Rightarrow> Some ErrTypeError
      | Some (Object ex) \<Rightarrow>
          if name ex = None
            then Some (ErrString ''missing name in experiment block in configuration'')
          else if fullpath ex = None
            then Some (ErrString ''missing fullpath in experiment block in configuration'')
          else (case pavlovia c of
            None \<Rightarrow> Some (ErrString ''missing pavlovia block in configuration'')
          | Some (Primitive v) \<Rightarrow> Some ErrTypeError
          | Some (Object p) \<Rightarrow>
              if URL p = None
                then Some (ErrString ''missing URL in pavlovia block in configuration'')
              else (case gitlab c of
                None \<Rightarrow> Some (ErrString ''missing gitlab block in configuration'')
              | Some (Primitive v) \<Rightarrow> Some ErrTypeError
              | Some (Object g) \<Rightarrow>
                  if projectId g = None
                  then Some (ErrString ''missing projectId in gitlab block in configuration'')
                  else None)))"

text \<open>Lines 271-309: the run comes from an approved host.\<close>

definition configure_server :: "env \<Rightarrow> string \<Rightarrow> psychoJS \<Rightarrow> outcome \<times> psychoJS" where
  "configure_server e configURL s =
     (let s1 = call (GetConfiguration configURL) s in
      case getConfiguration e configURL of
        Inl err \<Rightarrow> (Throws err, s1)
      | Inr fetched \<Rightarrow>
          (let c = update_legacy fetched;
               s2 = s1\<lparr>this_config := Some c\<rparr> in
           case essential_blocks c of
             Some err \<Rightarrow> (Throws err, s2)
           | None \<Rightarrow> (Returns, s2\<lparr>this_config := Some (c\<lparr>environment := Some SERVER\<rparr>)\<rparr>)))"

text \<open>Lines 310-321: the ad-hoc configuration.\<close>

definition configure_local :: "string \<Rightarrow> psychoJS \<Rightarrow> outcome \<times> psychoJS" where
  "configure_local nm s =
     (Returns,
      s\<lparr>this_config := Some
          \<lparr> environment = Some LOCAL,
            experiment' = Some (Object
              \<lparr> name = Some (JStr nm), fullpath = None, keys = Some (JArr []),
                saveFormat = Some CSV, saveIncompleteResults = Some True,
                resultsUpload = None \<rparr>),
            pavlovia = None, gitlab = None, psychoJsManager = None, session = None \<rparr>\<rparr>)"

text \<open>Lines 322-326. The assignment goes through \<^verbatim>\<open>this._config.experiment\<close>.\<close>

definition init_resultsUpload :: "psychoJS \<Rightarrow> outcome \<times> psychoJS" where
  "init_resultsUpload s =
     (case this_config s of
        None \<Rightarrow> (Throws ErrTypeError, s)
      | Some c \<Rightarrow>
          (case experiment' c of
             None \<Rightarrow> (Throws ErrTypeError, s)
           | Some (Primitive v) \<Rightarrow> (Throws ErrTypeError, s)
           | Some (Object ex) \<Rightarrow>
               (Returns,
                s\<lparr>this_config := Some (c\<lparr>experiment' := Some (Object
                    (ex\<lparr>resultsUpload := Some
                      \<lparr> intervalId = - 1, period = - 1, lastUploadTimestamp = None \<rparr>\<rparr>))\<rparr>)\<rparr>)))"

text \<open>Lines 328-334: a fresh \<^verbatim>\<open>Map\<close>, filled by \<^verbatim>\<open>forEach\<close> in the order of the parameters.\<close>

fun serverParameters ::
  "(string \<rightharpoonup> string) \<Rightarrow> (string \<times> string) list \<Rightarrow> (string \<rightharpoonup> string)" where
  "serverParameters m [] = m"
| "serverParameters m ((key, val) # ps) =
     serverParameters (if indexOf key ''__'' = 0 then m(key \<mapsto> val) else m) ps"

text \<open>Lines 328-342.\<close>

definition configure_finish :: "env \<Rightarrow> psychoJS \<Rightarrow> outcome \<times> psychoJS" where
  "configure_finish e s =
     (let m = serverParameters Map.empty (getUrlParameters e);
          s1 = s\<lparr>this_serverMsg := Some m\<rparr>;
          s2 = (if m ''__noOutput'' \<noteq> None then s1\<lparr>this_saveResults := False\<rparr> else s1)
      in (Returns, s2\<lparr>this_status := CONFIGURED\<rparr>))"

definition configure :: "env \<Rightarrow> string \<Rightarrow> string \<Rightarrow> psychoJS \<Rightarrow> outcome \<times> psychoJS" where
  "configure e configURL nm s =
     catch
       (andThen
          (andThen
             (let s1 = s\<lparr>this_status := CONFIGURING\<rparr> in
              if isHost (this_hosts s1) (location_href e)
              then configure_server e configURL s1
              else configure_local nm s1)
             init_resultsUpload)
          (configure_finish e))
       (\<lambda>err s'. (Throws (ErrObject ''PsychoJS.configure''
                     ''when configuring PsychoJS for the experiment'' err), s'))"

subsection \<open>\<^verbatim>\<open>getEnvironment\<close> (lines 411-416)\<close>

definition getEnvironment :: "psychoJS \<Rightarrow> Environment option" where
  "getEnvironment s = (case this_config s of None \<Rightarrow> None | Some c \<Rightarrow> environment c)"

subsection \<open>Access to \<^verbatim>\<open>this._config.experiment.resultsUpload\<close>\<close>

text \<open>
  The object \<^verbatim>\<open>this._config.experiment\<close>, when there is one. The class reads
  \<^verbatim>\<open>this._config.experiment.resultsUpload.intervalId\<close> and the like: without an object at
  \<^verbatim>\<open>experiment\<close> (the configuration or the key is undefined, or the value is not an object)
  such a read throws a \<^verbatim>\<open>TypeError\<close>.
\<close>

definition get_experiment :: "psychoJS \<Rightarrow> experiment_block option" where
  "get_experiment s =
     (case this_config s of
        None \<Rightarrow> None
      | Some c \<Rightarrow>
          (case experiment' c of
             None \<Rightarrow> None
           | Some (Primitive v) \<Rightarrow> None
           | Some (Object ex) \<Rightarrow> Some ex))"

definition get_resultsUpload :: "psychoJS \<Rightarrow> resultsUpload option" where
  "get_resultsUpload s = (case get_experiment s of None \<Rightarrow> None | Some ex \<Rightarrow> resultsUpload ex)"

definition map_resultsUpload :: "(resultsUpload \<Rightarrow> resultsUpload) \<Rightarrow> psychoJS \<Rightarrow> psychoJS" where
  "map_resultsUpload f s =
     s\<lparr>this_config :=
         map_option
           (\<lambda>c. c\<lparr>experiment' :=
                  map_option
                    (map_block (\<lambda>ex. ex\<lparr>resultsUpload := map_option f (resultsUpload ex)\<rparr>))
                    (experiment' c)\<rparr>)
           (this_config s)\<rparr>"

text \<open>
  Lines 523-527 of \<^verbatim>\<open>quit\<close>, and the same three lines in the unload handler (738-741):
  the access throws a \<^verbatim>\<open>TypeError\<close> when one of the objects on the path is not there.
\<close>

definition stopUpload :: "psychoJS \<Rightarrow> outcome \<times> psychoJS" where
  "stopUpload s =
     (case get_resultsUpload s of
        None \<Rightarrow> (Throws ErrTypeError, s)
      | Some ru \<Rightarrow>
          if intervalId ru > 0
          then (Returns,
                map_resultsUpload (\<lambda>r. r\<lparr>intervalId := - 1\<rparr>) (call (ClearInterval (intervalId ru)) s))
          else (Returns, s))"

text \<open>
  The truth value of \<^verbatim>\<open>this._config.experiment.saveIncompleteResults\<close>; an absent key is
  falsy. Both places that read it (lines 535 and 745) come after an access through the same
  objects has succeeded, so the read itself cannot throw there.
\<close>

definition saveIncomplete :: "psychoJS \<Rightarrow> bool" where
  "saveIncomplete s =
     (case get_experiment s of
        None \<Rightarrow> False
      | Some ex \<Rightarrow> (case saveIncompleteResults ex of None \<Rightarrow> False | Some b \<Rightarrow> b))"

text \<open>\<^verbatim>\<open>await\<close> of a collaborator's promise: it resolves, or its rejection is thrown.\<close>

definition await :: "js_error option \<Rightarrow> psychoJS \<Rightarrow> outcome \<times> psychoJS" where
  "await r s = (case r of None \<Rightarrow> (Returns, s) | Some err \<Rightarrow> (Throws err, s))"

subsection \<open>\<^verbatim>\<open>quit\<close> (lines 494-594)\<close>

record quit_options =
  opt_closeWindow :: bool
  opt_isCompleted :: bool
  opt_message :: "string option"
  opt_showOK :: bool

definition default_quit_options :: quit_options where
  "default_quit_options =
     \<lparr> opt_closeWindow = True, opt_isCompleted = False, opt_message = None, opt_showOK = True \<rparr>"

text \<open>
  Lines 551-576, the closure \<^verbatim>\<open>onTerminate\<close>. \<^verbatim>\<open>this._window\<close> is undefined until
  \<^verbatim>\<open>openWindow\<close> ran, and a call through it then throws.
\<close>

definition onTerminate :: "quit_options \<Rightarrow> psychoJS \<Rightarrow> outcome \<times> psychoJS" where
  "onTerminate q s =
     andThen
       (if opt_closeWindow q
        then (if this_window s then (Returns, call RemoveBodyChildren (call WindowClose s))
              else (Throws ErrTypeError, s))
        else (Returns, s))
       (\<lambda>s1.
          if \<not> this_window s1 then (Throws ErrTypeError, s1)
          else
            (let s2 = (call WindowCloseFullScreen s1)\<lparr>this_status := FINISHED\<rparr> in
             (Returns,
              if opt_isCompleted q \<and> this_completionUrl s2 \<noteq> None
              then call (Redirect (the (this_completionUrl s2))) s2
              else if \<not> opt_isCompleted q \<and> this_cancellationUrl s2 \<noteq> None
              then call (Redirect (the (this_cancellationUrl s2))) s2
              else s2)))"

text \<open>Lines 514-527.\<close>

definition quit_stop :: "bool \<Rightarrow> psychoJS \<Rightarrow> outcome \<times> psychoJS" where
  "quit_stop isServerEnv s =
     andThen
       (stopUpload
          (let s1 = call SchedulerStop s in
           if isServerEnv then call (RemoveEventListener ''beforeunload'') s1 else s1))
       (\<lambda>s2. (Returns, map_resultsUpload (\<lambda>r. r\<lparr>lastUploadTimestamp := None\<rparr>) s2))"

text \<open>Lines 529-542.\<close>

definition quit_save :: "env \<Rightarrow> quit_options \<Rightarrow> bool \<Rightarrow> psychoJS \<Rightarrow> outcome \<times> psychoJS" where
  "quit_save e q isServerEnv s =
     (let s1 = call (FinishDialog ((if this_saveResults s then 2 else 0) +
                                   (if isServerEnv then 1 else 0))) s in
      if opt_isCompleted q \<or> saveIncomplete s1 then
        if this_saveResults s1 then
          andThen
            (await (experiment_save e)
               (call (ExperimentSave False) (call (FinishDialogNextStep ''saving results'') s1)))
            (\<lambda>s2. await (logger_flush e)
                     (call LoggerFlush (call (FinishDialogNextStep ''saving logs'') s2)))
        else (Returns, s1)
      else (Returns, s1))"

text \<open>Lines 544-548.\<close>

definition quit_closeSession ::
  "env \<Rightarrow> quit_options \<Rightarrow> bool \<Rightarrow> psychoJS \<Rightarrow> outcome \<times> psychoJS" where
  "quit_closeSession e q isServerEnv s =
     (if isServerEnv
      then await (closeSession e (opt_isCompleted q))
             (call (CloseSession (opt_isCompleted q) False)
                (call (FinishDialogNextStep ''closing the session'') s))
      else (Returns, s))"

text \<open>
  Lines 578-588. With \<^verbatim>\<open>showOK\<close> the closure is handed to the dialog and runs when the
  participant presses OK, after \<^verbatim>\<open>quit\<close> has returned.
\<close>

definition quit_acknowledge :: "quit_options \<Rightarrow> psychoJS \<Rightarrow> outcome \<times> psychoJS" where
  "quit_acknowledge q s =
     (if opt_showOK q
      then (Returns,
            call (GuiDialogMessage
                    (case opt_message q of
                       Some text \<Rightarrow> text
                     | None \<Rightarrow> ''Thank you for your patience. Goodbye!'')) s)
      else onTerminate q (call GuiCloseDialog s))"

definition quit :: "env \<Rightarrow> quit_options \<Rightarrow> psychoJS \<Rightarrow> outcome \<times> psychoJS" where
  "quit e q s =
     (case this_experiment s of
        None \<Rightarrow> (Throws ErrTypeError, s)
      | Some eh \<Rightarrow>
          (let s1 = s\<lparr>this_experiment :=
                        Some (eh\<lparr>experimentEnded := True, isCompleted := opt_isCompleted q\<rparr>),
                      this_status := STOPPED\<rparr>;
               isServerEnv = (getEnvironment s1 = Some SERVER) in
           catch
             (andThen
                (andThen
                   (andThen (quit_stop isServerEnv s1) (quit_save e q isServerEnv))
                   (quit_closeSession e q isServerEnv))
                (quit_acknowledge q))
             (\<lambda>err s'. (Throws (ErrObject ''PsychoJS.quit'' ''when terminating the experiment'' err),
                         s'\<lparr>this_status := ERROR\<rparr>))))"

subsection \<open>\<^verbatim>\<open>setRedirectUrls\<close> (lines 639-642) and \<^verbatim>\<open>openWindow\<close> (lines 451-480)\<close>

definition setRedirectUrls :: "string option \<Rightarrow> string option \<Rightarrow> psychoJS \<Rightarrow> psychoJS" where
  "setRedirectUrls completionUrl cancellationUrl s =
     s\<lparr>this_completionUrl := completionUrl, this_cancellationUrl := cancellationUrl\<rparr>"

definition openWindow :: "psychoJS \<Rightarrow> outcome \<times> psychoJS" where
  "openWindow s =
     (if this_window s
      then (Throws (ErrObject ''PsychoJS.openWindow'' ''when opening a Window''
                      (ErrString ''A Window has already been opened.'')), s)
      else (Returns, s\<lparr>this_window := True\<rparr>))"

subsection \<open>\<^verbatim>\<open>start\<close> (lines 664-816)\<close>

record start_options =
  opt_configURL :: string
  opt_expName :: string
  opt_resources :: "(string \<times> string) list"
  opt_surveyId :: "string option"

definition default_start_options :: start_options where
  "default_start_options =
     \<lparr> opt_configURL = ''config.json'', opt_expName = ''UNKNOWN'', opt_resources = [],
       opt_surveyId = None \<rparr>"

text \<open>
  Lines 683-702. \<^verbatim>\<open>_getParticipantIPInfo\<close> is not awaited: it assigns the empty object and
  goes on by itself.
\<close>

definition start_participant :: "env \<Rightarrow> psychoJS \<Rightarrow> psychoJS" where
  "start_participant e s =
     (let s1 = (if this_collectIP s then (call GetParticipantIPInfo s)\<lparr>this_IP := Some []\<rparr>
                else s\<lparr>this_IP := Some [(''city'', ''X''), (''country'', ''X''),
                        (''hostname'', ''X''), (''IP'', ''X''), (''location'', ''X''),
                        (''region'', ''X'')]\<rparr>)
      in (call NewExperimentHandler s1)\<lparr>this_experiment := Some (newExperimentHandler e)\<rparr>)"

text \<open>
  Lines 764-778: the periodic upload. The delay is \<^verbatim>\<open>period * 60 * 1000\<close>, multiplied from
  left to right by the engine.
\<close>

definition start_upload :: "env \<Rightarrow> psychoJS \<Rightarrow> outcome \<times> psychoJS" where
  "start_upload e s =
     (if this_saveResults s then
        (case get_resultsUpload s of
           None \<Rightarrow> (Throws ErrTypeError, s)
         | Some ru \<Rightarrow>
             if period ru > 0
             then (Returns,
                   map_resultsUpload (\<lambda>r. r\<lparr>intervalId := setInterval e\<rparr>)
                     (call (SetInterval (multiply e (multiply e (period ru) 60) 1000)) s))
             else (Returns, s))
      else (Returns, s))"

text \<open>
  Lines 709-779: the run is on the server. The environment was read from the configuration
  just before, so the configuration exists when \<^verbatim>\<open>openSession\<close> gets it.
\<close>

definition start_session :: "env \<Rightarrow> start_options \<Rightarrow> psychoJS \<Rightarrow> outcome \<times> psychoJS" where
  "start_session e opts s =
     (case this_serverMsg s of
        None \<Rightarrow> (Throws ErrTypeError, s)
      | Some m \<Rightarrow>
          (let params =
                 (case m ''__pilotToken'' of Some t \<Rightarrow> [(''pilotToken'', t)] | None \<Rightarrow> []) @
                 (case opt_surveyId opts of Some i \<Rightarrow> [(''surveyId'', i)] | None \<Rightarrow> []);
               s1 = (case opt_surveyId opts of
                       Some i \<Rightarrow> s\<lparr>this_surveyId := Some i\<rparr>
                     | None \<Rightarrow> s);
               s2 = call (OpenSession params) s1
           in case this_config s2 of
                None \<Rightarrow> (Throws ErrTypeError, s2)
              | Some c \<Rightarrow>
                  (case openSession e params c of
                     Inl err \<Rightarrow> (Throws err, s2)
                   | Inr c' \<Rightarrow>
                       start_upload e
                         (call (AddEventListener ''unload'')
                            (call (AddEventListener ''beforeunload'')
                               (s2\<lparr>this_config := Some c'\<rparr>))))))"

text \<open>
  Lines 781-811. The two buttons of the warning dialog act after \<^verbatim>\<open>start\<close> has returned.
\<close>

definition start_scheduler :: "env \<Rightarrow> start_options \<Rightarrow> psychoJS \<Rightarrow> outcome \<times> psychoJS" where
  "start_scheduler e opts s =
     (let s1 = call (PrepareResources (opt_resources opts)) s in
      if this_checkWebGLSupport s1 \<and> \<not> webGLSupport e
      then (Returns,
            call GuiDialogWarning
              (call NextEntry (call (AddData ''hardware_acceleration'' ''NOT SUPPORTED'') s1)))
      else if this_autoStartScheduler s1
      then (Returns, call SchedulerStart (s1\<lparr>this_status := STARTED\<rparr>))
      else (Returns, s1))"

definition start :: "env \<Rightarrow> start_options \<Rightarrow> psychoJS \<Rightarrow> outcome \<times> psychoJS" where
  "start e opts s =
     catch
       (andThen
          (andThen
             (configure e (opt_configURL opts) (opt_expName opts) s)
             (\<lambda>s1. let s2 = start_participant e s1 in
                    if getEnvironment s2 = Some SERVER then start_session e opts s2
                    else (Returns, s2)))
          (start_scheduler e opts))
       (\<lambda>err s'. (Throws (ErrObject ''PsychoJS.start'' ''when starting the experiment'' err),
                   s'\<lparr>this_status := ERROR\<rparr>))"

text \<open>
  Lines 735-762: the listener \<^verbatim>\<open>start\<close> registers for \<^verbatim>\<open>unload\<close>. Neither the save nor the
  closing of the session is awaited.
\<close>

definition unload :: "psychoJS \<Rightarrow> outcome \<times> psychoJS" where
  "unload s =
     (case this_config s of
        None \<Rightarrow> (Throws ErrTypeError, s)
      | Some c \<Rightarrow>
          (case session c of
             None \<Rightarrow> (Throws ErrTypeError, s)
           | Some ss \<Rightarrow>
               andThen
                 (if status ss = Some ''OPEN''
                  then andThen (stopUpload s)
                         (\<lambda>s1. (Returns,
                            call (CloseSession False True)
                              (if saveIncomplete s1 \<and> this_saveResults s1
                               then call (ExperimentSave True)
                                      (map_resultsUpload (\<lambda>r. r\<lparr>lastUploadTimestamp := None\<rparr>) s1)
                               else s1)))
                  else (Returns, s))
                 (\<lambda>s2. (Returns, if this_window s2 then call WindowClose s2 else s2))))"

section \<open>Notions of the specification\<close>

text \<open>
  The fields the specification requires of a fetched configuration, in the order in which
  \<^verbatim>\<open>_configure\<close> looks for them. A field of a block is missing when the block is, and when
  the block is not an object.
\<close>

datatype required_field =
    Experiment_block
  | Experiment_name
  | Experiment_fullpath
  | Pavlovia_block
  | Pavlovia_URL
  | Gitlab_block
  | Gitlab_projectId

definition required_fields :: "required_field list" where
  "required_fields =
     [Experiment_block, Experiment_name, Experiment_fullpath, Pavlovia_block, Pavlovia_URL,
      Gitlab_block, Gitlab_projectId]"

fun is_missing :: "required_field \<Rightarrow> config \<Rightarrow> bool" where
  "is_missing Experiment_block c = (experiment' c = None)"
| "is_missing Experiment_name c =
     (case experiment' c of Some (Object ex) \<Rightarrow> name ex = None | _ \<Rightarrow> True)"
| "is_missing Experiment_fullpath c =
     (case experiment' c of Some (Object ex) \<Rightarrow> fullpath ex = None | _ \<Rightarrow> True)"
| "is_missing Pavlovia_block c = (pavlovia c = None)"
| "is_missing Pavlovia_URL c =
     (case pavlovia c of Some (Object p) \<Rightarrow> URL p = None | _ \<Rightarrow> True)"
| "is_missing Gitlab_block c = (gitlab c = None)"
| "is_missing Gitlab_projectId c =
     (case gitlab c of Some (Object g) \<Rightarrow> projectId g = None | _ \<Rightarrow> True)"


text \<open>The message that names a field.\<close>

fun missing_message :: "required_field \<Rightarrow> string" where
  "missing_message Experiment_block = ''missing experiment block in configuration''"
| "missing_message Experiment_name = ''missing name in experiment block in configuration''"
| "missing_message Experiment_fullpath =
     ''missing fullpath in experiment block in configuration''"
| "missing_message Pavlovia_block = ''missing pavlovia block in configuration''"
| "missing_message Pavlovia_URL = ''missing URL in pavlovia block in configuration''"
| "missing_message Gitlab_block = ''missing gitlab block in configuration''"
| "missing_message Gitlab_projectId = ''missing projectId in gitlab block in configuration''"

text \<open>The field would be in a block that is there and is not an object.\<close>

fun in_primitive :: "required_field \<Rightarrow> config \<Rightarrow> bool" where
  "in_primitive Experiment_name c =
     (case experiment' c of Some (Primitive v) \<Rightarrow> True | _ \<Rightarrow> False)"
| "in_primitive Experiment_fullpath c =
     (case experiment' c of Some (Primitive v) \<Rightarrow> True | _ \<Rightarrow> False)"
| "in_primitive Pavlovia_URL c =
     (case pavlovia c of Some (Primitive v) \<Rightarrow> True | _ \<Rightarrow> False)"
| "in_primitive Gitlab_projectId c =
     (case gitlab c of Some (Primitive v) \<Rightarrow> True | _ \<Rightarrow> False)"
| "in_primitive _ c = False"

text \<open>
  What the test of a missing field throws: the message that names the field, or the
  \<^verbatim>\<open>TypeError\<close> of \<^verbatim>\<open>in\<close> when the block of the field is not an object.
\<close>

definition missing_error :: "required_field \<Rightarrow> config \<Rightarrow> js_error" where
  "missing_error f c =
     (if in_primitive f c then ErrTypeError else ErrString (missing_message f))"

text \<open>A valid server response contains every required field.\<close>

definition valid_response :: "config \<Rightarrow> bool" where
  "valid_response c = list_all (\<lambda>f. \<not> is_missing f c) required_fields"

text \<open>The first required field that is missing, if any.\<close>

definition first_missing :: "config \<Rightarrow> required_field option" where
  "first_missing c = find (\<lambda>f. is_missing f c) required_fields"

text \<open>The session URL and the project identifier of a configuration.\<close>

definition sessionURL :: "config \<Rightarrow> json option" where
  "sessionURL c = (case pavlovia c of Some (Object p) \<Rightarrow> URL p | _ \<Rightarrow> None)"

definition gitlabProjectId :: "config \<Rightarrow> json option" where
  "gitlabProjectId c = (case gitlab c of Some (Object g) \<Rightarrow> projectId g | _ \<Rightarrow> None)"

text \<open>A value is non-empty when it is there and is neither \<^verbatim>\<open>null\<close> nor the empty string.\<close>

fun non_empty :: "json option \<Rightarrow> bool" where
  "non_empty None = False"
| "non_empty (Some JNull) = False"
| "non_empty (Some (JStr str)) = (str \<noteq> [])"
| "non_empty (Some _) = True"

text \<open>The error objects \<^verbatim>\<open>_configure\<close> and \<^verbatim>\<open>start\<close> throw around an error.\<close>

definition configure_error :: "js_error \<Rightarrow> js_error" where
  "configure_error err =
     ErrObject ''PsychoJS.configure'' ''when configuring PsychoJS for the experiment'' err"

definition start_error :: "js_error \<Rightarrow> js_error" where
  "start_error err = ErrObject ''PsychoJS.start'' ''when starting the experiment'' err"

text \<open>
  The periodic upload timer is not armed: no \<^verbatim>\<open>setInterval\<close> call has been made and
  \<^verbatim>\<open>resultsUpload.intervalId\<close>, where it exists, is \<^verbatim>\<open>-1\<close>.
\<close>

fun is_SetInterval :: "event \<Rightarrow> bool" where
  "is_SetInterval (SetInterval d) = True"
| "is_SetInterval _ = False"

definition timer_unarmed :: "psychoJS \<Rightarrow> bool" where
  "timer_unarmed s =
     (filter is_SetInterval (effects s) = [] \<and>
      (case get_resultsUpload s of None \<Rightarrow> True | Some ru \<Rightarrow> intervalId ru = - 1))"

text \<open>The upload options \<^verbatim>\<open>experiment.resultsUpload\<close> of a configuration.\<close>

definition upload_options :: "config \<Rightarrow> resultsUpload option" where
  "upload_options c =
     (case experiment' c of Some (Object ex) \<Rightarrow> resultsUpload ex | _ \<Rightarrow> None)"

text \<open>
  The configured period of the object is not positive. Nothing in the class writes
  \<^verbatim>\<open>resultsUpload.period\<close> after \<^verbatim>\<open>_configure\<close> has set it to \<^verbatim>\<open>-1\<close>: the period found after
  \<^verbatim>\<open>start\<close> is the one the session manager left in the configuration.
\<close>

definition period_off :: "psychoJS \<Rightarrow> bool" where
  "period_off s =
     (case get_resultsUpload s of None \<Rightarrow> True | Some ru \<Rightarrow> period ru \<le> 0)"

text \<open>The identifier of the timer in a configuration is \<^verbatim>\<open>-1\<close>, where there is one.\<close>

definition identifier_unset :: "config \<Rightarrow> bool" where
  "identifier_unset c =
     (case upload_options c of None \<Rightarrow> True | Some ru \<Rightarrow> intervalId ru = - 1)"

text \<open>The calls that save results or flush the logs.\<close>

fun is_save :: "event \<Rightarrow> bool" where
  "is_save (ExperimentSave sync) = True"
| "is_save LoggerFlush = True"
| "is_save _ = False"

definition saves :: "psychoJS \<Rightarrow> event list" where
  "saves s = filter is_save (effects s)"

text \<open>The server message board the specification describes, from the query parameters.\<close>

definition message_board :: "(string \<times> string) list \<Rightarrow> (string \<rightharpoonup> string)" where
  "message_board ps = (\<lambda>k. if prefix ''__'' k then map_of (rev ps) k else None)"

section \<open>Sample runs\<close>

text \<open>A configuration file as the server sends it, and variations of it.\<close>

definition modern_config :: config where
  "modern_config =
     \<lparr> environment = None,
       experiment' = Some (Object
         \<lparr> name = Some (JStr ''stroop''), fullpath = Some (JStr ''alice/stroop''),
           keys = None, saveFormat = None, saveIncompleteResults = Some True,
           resultsUpload = None \<rparr>),
       pavlovia = Some (Object \<lparr> URL = Some (JStr ''https://pavlovia.org'') \<rparr>),
       gitlab = Some (Object \<lparr> projectId = Some (JNum 1234) \<rparr>),
       psychoJsManager = None,
       session = None \<rparr>"

definition legacy_config :: config where
  "legacy_config =
     modern_config
       \<lparr> pavlovia := None,
         psychoJsManager := Some (JObj [(''URL'', JStr ''https://pavlovia.org/server'')]) \<rparr>"

definition mixed_config :: config where
  "mixed_config =
     modern_config
       \<lparr> pavlovia := Some (Object \<lparr> URL = Some (JStr ''https://example.org'') \<rparr>),
         psychoJsManager := Some (JObj [(''URL'', JStr ''https://pavlovia.org/server'')]) \<rparr>"



definition blank_config :: config where
  "blank_config =
     modern_config
       \<lparr> pavlovia := Some (Object \<lparr> URL = Some (JStr []) \<rparr>),
         gitlab := Some (Object \<lparr> projectId = Some (JStr []) \<rparr>) \<rparr>"

definition projectless_config :: config where
  "projectless_config = modern_config \<lparr> gitlab := Some (Object \<lparr> projectId = None \<rparr>) \<rparr>"

text \<open>
  A browser at a given address with given query parameters, and a server that sends a given
  configuration, opens the session and answers every later call.
\<close>

definition browser :: "string \<Rightarrow> (string \<times> string) list \<Rightarrow> config \<Rightarrow> env" where
  "browser href params fetched =
     \<lparr> location_href = href,
       getUrlParameters = params,
       getConfiguration = (\<lambda>url. Inr fetched),
       openSession = (\<lambda>ps c. Inr (c\<lparr>session := Some \<lparr> status = Some ''OPEN'' \<rparr>\<rparr>)),
       closeSession = (\<lambda>completed. None),
       experiment_save = None,
       logger_flush = None,
       setInterval = 1,
       multiply = (\<lambda>x y. x * y),
       webGLSupport = True,
       newExperimentHandler = \<lparr> experimentEnded = False, isCompleted = False \<rparr> \<rparr>"

definition pavlovia_run :: string where
  "pavlovia_run = ''https://run.pavlovia.org/alice/stroop/''"

definition local_run :: string where
  "local_run = ''http://localhost:8000/index.html''"

text \<open>The same server, but closing the session fails.\<close>

definition failing_close :: env where
  "failing_close =
     (browser pavlovia_run [] modern_config)
       \<lparr>closeSession := (\<lambda>completed. Some (ErrString ''Failed to fetch''))\<rparr>"

text \<open>A run on that server up to the moment the experiment calls \<^verbatim>\<open>quit\<close>.\<close>

definition running :: psychoJS where
  "running =
     snd (openWindow (snd (start failing_close default_start_options
       (new_PsychoJS default_options))))"

text \<open>Query parameters of a pilot run that writes no output.\<close>

definition pilot_parameters :: "(string \<times> string) list" where
  "pilot_parameters =
     [(''__pilotToken'', ''abc''), (''participant'', ''7''), (''__noOutput'', []),
      (''__pilotToken'', ''xyz'')]"

text \<open>
  The same server, but opening the session writes a given period, in minutes, into the
  upload options of the configuration, and nothing else there.
\<close>

definition upload_every :: "real \<Rightarrow> env" where
  "upload_every minutes =
     (browser pavlovia_run [] modern_config)
       \<lparr>openSession := (\<lambda>ps c. Inr
          (c\<lparr>session := Some \<lparr> status = Some ''OPEN'' \<rparr>,
             experiment' := map_option
               (map_block (\<lambda>ex. ex\<lparr>resultsUpload :=
                  map_option (\<lambda>r. r\<lparr>period := minutes\<rparr>) (resultsUpload ex)\<rparr>))
               (experiment' c)\<rparr>))\<rparr>"

text \<open>A local run with the query parameters of a pilot.\<close>

definition pilot :: env where
  "pilot = browser local_run pilot_parameters modern_config"

section \<open>Properties\<close>

lemmas Status_defs =
  CONFIGURED_def CONFIGURING_def ERROR_def FINISHED_def NOT_CONFIGURED_def
  NOT_STARTED_def PAUSED_def STARTED_def STOPPED_def

subsection \<open>Strings and the message board\<close>

lemma indexOf_from_range: "indexOf_from i s p = - 1 \<or> int i \<le> indexOf_from i s p"
  by (induction s arbitrary: i) (auto, fastforce)

lemma indexOf_from_Suc_nonzero: "indexOf_from (Suc i) s p \<noteq> 0"
  using indexOf_from_range [of "Suc i" s p] by auto

lemma indexOf_zero_iff: "indexOf s p = 0 \<longleftrightarrow> prefix p s"
  by (cases s) (auto simp: indexOf_def indexOf_from_Suc_nonzero)

lemma serverParameters_apply:
  "serverParameters m ps k =
     (if prefix ''__'' k
      then (case map_of (rev ps) k of Some v \<Rightarrow> Some v | None \<Rightarrow> m k)
      else m k)"
proof (induction ps arbitrary: m)
  case Nil
  show ?case by simp
next
  case (Cons a ps)
  obtain key val where a: "a = (key, val)" by (cases a)
  show ?case
    unfolding a
    by (auto simp: Cons.IH indexOf_zero_iff map_add_def split: option.splits)
qed

lemma serverParameters_board: "serverParameters Map.empty ps = message_board ps"
  by (rule ext) (simp add: serverParameters_apply message_board_def split: option.split)

lemma message_board_dom: "dom (message_board ps) = {k \<in> fst ` set ps. prefix ''__'' k}"
proof -
  have "dom (message_board ps) = dom (map_of (rev ps)) \<inter> {k. prefix ''__'' k}"
    by (auto simp: message_board_def dom_def split: if_splits)
  then show ?thesis
    by (auto simp: dom_map_of_conv_image_fst)
qed

lemma message_board_Some: "message_board ps k = Some v \<Longrightarrow> (k, v) \<in> set ps"
  by (auto simp: message_board_def split: if_splits dest: map_of_SomeD)

subsection \<open>The tests of the essential blocks\<close>

lemmas tests_defs =
  essential_blocks_def first_missing_def required_fields_def missing_error_def

lemma essential_blocks_first_missing:
  "essential_blocks c = map_option (\<lambda>g. missing_error g c) (first_missing c)"
proof (cases "experiment' c")
  case None
  then show ?thesis by (simp add: tests_defs)
next
  case e: (Some be)
  show ?thesis
  proof (cases be)
    case (Primitive v)
    with e show ?thesis by (simp add: tests_defs)
  next
    case (Object ex)
    with e have ex: "experiment' c = Some (Object ex)" by simp
    show ?thesis
    proof (cases "pavlovia c")
      case None
      with ex show ?thesis by (simp add: tests_defs)
    next
      case p: (Some bp)
      show ?thesis
      proof (cases bp)
        case (Primitive v)
        with ex p show ?thesis by (simp add: tests_defs)
      next
        case (Object pv)
        with p have pv: "pavlovia c = Some (Object pv)" by simp
        show ?thesis
        proof (cases "gitlab c")
          case None
          with ex pv show ?thesis by (simp add: tests_defs)
        next
          case g: (Some bg)
          show ?thesis
          proof (cases bg)
            case (Primitive v)
            with ex pv g show ?thesis by (simp add: tests_defs)
          next
            case (Object gv)
            with ex pv g show ?thesis by (simp add: tests_defs)
          qed
        qed
      qed
    qed
  qed
qed

lemma first_missing_Some: "first_missing c = Some g \<Longrightarrow> is_missing g c"
  by (auto simp: first_missing_def find_Some_iff)

lemma first_missing_None_iff: "first_missing c = None \<longleftrightarrow> valid_response c"
  by (auto simp: first_missing_def valid_response_def find_None_iff list_all_iff)

lemma is_missing_first: "is_missing f c \<Longrightarrow> first_missing c \<noteq> None"
  by (cases f) (auto simp: first_missing_def required_fields_def)

lemma missing_message_inj: "missing_message g = missing_message h \<Longrightarrow> g = h"
  by (cases g; cases h) simp_all


subsection \<open>The legacy block\<close>

lemma is_missing_update_legacy: "is_missing g (update_legacy c) \<Longrightarrow> is_missing g c"
  by (cases g) (auto simp: update_legacy_def split: if_splits)

lemma in_primitive_update_legacy:
  "is_missing g (update_legacy c) \<Longrightarrow> in_primitive g (update_legacy c) = in_primitive g c"
  by (cases g) (auto simp: update_legacy_def split: if_splits)

lemma missing_error_update_legacy:
  "is_missing g (update_legacy c) \<Longrightarrow> missing_error g (update_legacy c) = missing_error g c"
  by (simp add: missing_error_def in_primitive_update_legacy)

lemma is_missing_kept:
  "is_missing f c \<Longrightarrow> psychoJsManager c = None \<or> f \<notin> {Pavlovia_block, Pavlovia_URL} \<Longrightarrow>
   is_missing f (update_legacy c)"
  by (cases f) (auto simp: update_legacy_def)

lemma update_legacy_modern: "psychoJsManager c = None \<Longrightarrow> update_legacy c = c"
  by (simp add: update_legacy_def)

lemma update_legacy_legacy:
  "psychoJsManager c \<noteq> None \<Longrightarrow>
   update_legacy c =
     c\<lparr>psychoJsManager := None,
       pavlovia := Some (Object \<lparr>URL = Some (JStr ''https://pavlovia.org'')\<rparr>)\<rparr>"
  by (simp add: update_legacy_def)

lemma update_legacy_idem: "update_legacy (update_legacy c) = update_legacy c"
  by (simp add: update_legacy_def)

subsection \<open>The three ways through \<^verbatim>\<open>_configure\<close> on an approved host, and the local one\<close>

lemma configure_local_eq:
  assumes "\<not> isHost (this_hosts s) (location_href e)"
  shows "configure e configURL nm s =
     (Returns,
      s\<lparr>this_status := CONFIGURED,
        this_config := Some
          \<lparr> environment = Some LOCAL,
            experiment' = Some (Object
              \<lparr> name = Some (JStr nm), fullpath = None, keys = Some (JArr []),
                saveFormat = Some CSV, saveIncompleteResults = Some True,
                resultsUpload = Some
                  \<lparr> intervalId = - 1, period = - 1, lastUploadTimestamp = None \<rparr> \<rparr>),
            pavlovia = None, gitlab = None, psychoJsManager = None, session = None \<rparr>,
        this_serverMsg := Some (message_board (getUrlParameters e)),
        this_saveResults :=
          (if message_board (getUrlParameters e) ''__noOutput'' \<noteq> None then False
           else this_saveResults s)\<rparr>)"
  using assms
  by (simp add: configure_def configure_local_def init_resultsUpload_def configure_finish_def
      andThen_def catch_def Let_def serverParameters_board)

lemma configure_fetch_fails:
  assumes "isHost (this_hosts s) (location_href e)"
    and "getConfiguration e configURL = Inl err"
  shows "configure e configURL nm s =
     (Throws (configure_error err),
      call (GetConfiguration configURL) (s\<lparr>this_status := CONFIGURING\<rparr>))"
  using assms
  by (simp add: configure_def configure_server_def andThen_def catch_def Let_def
      configure_error_def)

lemma configure_rejects:
  assumes "isHost (this_hosts s) (location_href e)"
    and "getConfiguration e configURL = Inr fetched"
    and "first_missing (update_legacy fetched) = Some g"
  shows "configure e configURL nm s =
     (Throws (configure_error (missing_error g (update_legacy fetched))),
      (call (GetConfiguration configURL) (s\<lparr>this_status := CONFIGURING\<rparr>))
        \<lparr>this_config := Some (update_legacy fetched)\<rparr>)"
  using assms
  by (simp add: configure_def configure_server_def andThen_def catch_def Let_def
      configure_error_def essential_blocks_first_missing)

lemma configure_accepts:
  assumes "isHost (this_hosts s) (location_href e)"
    and "getConfiguration e configURL = Inr fetched"
    and "first_missing (update_legacy fetched) = None"
  shows "configure e configURL nm s =
     (Returns,
      (call (GetConfiguration configURL) s)
        \<lparr>this_status := CONFIGURED,
         this_config := Some ((update_legacy fetched)
           \<lparr>environment := Some SERVER,
            experiment' := Some (Object
              ((the_object (the (experiment' (update_legacy fetched))))
                \<lparr>resultsUpload := Some
                   \<lparr> intervalId = - 1, period = - 1, lastUploadTimestamp = None \<rparr>\<rparr>))\<rparr>),
         this_serverMsg := Some (message_board (getUrlParameters e)),
         this_saveResults :=
           (if message_board (getUrlParameters e) ''__noOutput'' \<noteq> None then False
            else this_saveResults s)\<rparr>)"
proof -
  have "\<not> is_missing Experiment_block (update_legacy fetched)"
    using assms(3) is_missing_first by blast
  moreover have "\<not> is_missing Experiment_name (update_legacy fetched)"
    using assms(3) is_missing_first by blast
  ultimately obtain ex where ex: "experiment' (update_legacy fetched) = Some (Object ex)"
    by (auto split: option.splits block.splits)
  show ?thesis
    using assms ex
    by (simp add: configure_def configure_server_def init_resultsUpload_def
        configure_finish_def andThen_def catch_def Let_def call_def
        essential_blocks_first_missing serverParameters_board)
qed

lemma configure_cases:
  obtains
    (local) "\<not> isHost (this_hosts s) (location_href e)"
  | (fetch_fails) err where "isHost (this_hosts s) (location_href e)"
      "getConfiguration e configURL = Inl err"
  | (rejects) fetched g where "isHost (this_hosts s) (location_href e)"
      "getConfiguration e configURL = Inr fetched"
      "first_missing (update_legacy fetched) = Some g"
  | (accepts) fetched where "isHost (this_hosts s) (location_href e)"
      "getConfiguration e configURL = Inr fetched"
      "first_missing (update_legacy fetched) = None"
proof (cases "isHost (this_hosts s) (location_href e)")
  case False
  then show ?thesis by (rule local)
next
  case host: True
  show ?thesis
  proof (cases "getConfiguration e configURL")
    case (Inl err)
    with host show ?thesis by (rule fetch_fails)
  next
    case (Inr fetched)
    show ?thesis
    proof (cases "first_missing (update_legacy fetched)")
      case None
      with host Inr show ?thesis by (rule accepts)
    next
      case (Some g)
      with host Inr show ?thesis by (rule rejects)
    qed
  qed
qed

lemma configure_Returns:
  assumes "configure e configURL nm s = (Returns, s')"
  shows "this_serverMsg s' = Some (message_board (getUrlParameters e)) \<and>
         this_saveResults s' =
           (message_board (getUrlParameters e) ''__noOutput'' = None \<and> this_saveResults s) \<and>
         get_resultsUpload s' =
           Some \<lparr> intervalId = - 1, period = - 1, lastUploadTimestamp = None \<rparr> \<and>
         this_status s' = CONFIGURED \<and>
         this_experiment s' = this_experiment s"
  apply (rule configure_cases [where s = s and e = e and configURL = configURL])
  using assms
     apply (auto simp: configure_local_eq configure_fetch_fails configure_rejects
      configure_accepts get_resultsUpload_def get_experiment_def call_def split: if_splits)
  done

lemma configure_frame:
  "this_experiment (snd (configure e configURL nm s)) = this_experiment s \<and>
   saves (snd (configure e configURL nm s)) = saves s \<and>
   filter is_SetInterval (effects (snd (configure e configURL nm s))) =
     filter is_SetInterval (effects s)"
  apply (rule configure_cases [where s = s and e = e and configURL = configURL])
     apply (simp_all add: configure_local_eq configure_fetch_fails configure_rejects
      configure_accepts call_def saves_def)
  done

lemma configure_finish_getConfiguration:
  "configure_finish (e\<lparr>getConfiguration := g\<rparr>) = configure_finish e"
  by (rule ext) (simp add: configure_finish_def)

lemma configure_depends_on_update_legacy:
  assumes "getConfiguration e configURL = Inr fetched"
  shows "configure e configURL nm s =
         configure (e\<lparr>getConfiguration := \<lambda>url. Inr (update_legacy fetched)\<rparr>) configURL nm s"
  using assms
  by (simp add: configure_def configure_server_def configure_finish_getConfiguration
      update_legacy_idem Let_def)

subsection \<open>Sequencing\<close>

lemma andThen_preserves:
  "P (snd r) \<Longrightarrow> (\<And>s. P s \<Longrightarrow> P (snd (f s))) \<Longrightarrow> P (snd (andThen r f))"
  by (cases r) (auto simp: andThen_def split: outcome.splits)

lemma catch_preserves:
  "P (snd r) \<Longrightarrow> (\<And>err s. P s \<Longrightarrow> P (snd (h err s))) \<Longrightarrow> P (snd (catch r h))"
  by (cases r) (auto simp: catch_def split: outcome.splits)

lemma andThen_Returns: "fst r = Returns \<Longrightarrow> andThen r f = f (snd r)"
  by (cases r) (simp add: andThen_def)

lemma quit_preserves:
  assumes "P s"
    and "\<And>s eh. P s \<Longrightarrow> P (s\<lparr>this_experiment := Some eh, this_status := STOPPED\<rparr>)"
    and "\<And>s b. P s \<Longrightarrow> P (snd (quit_stop b s))"
    and "\<And>s b. P s \<Longrightarrow> P (snd (quit_save e q b s))"
    and "\<And>s b. P s \<Longrightarrow> P (snd (quit_closeSession e q b s))"
    and "\<And>s. P s \<Longrightarrow> P (snd (quit_acknowledge q s))"
    and "\<And>s. P s \<Longrightarrow> P (s\<lparr>this_status := ERROR\<rparr>)"
  shows "P (snd (quit e q s))"
proof (cases "this_experiment s")
  case None
  then show ?thesis using assms(1) by (simp add: quit_def)
next
  case (Some eh)
  show ?thesis
    unfolding quit_def Some option.case Let_def
    apply (rule catch_preserves [where P = P])
     apply (rule andThen_preserves [where P = P])
      apply (rule andThen_preserves [where P = P])
       apply (rule andThen_preserves [where P = P])
        apply (simp_all add: assms)
    done
qed

lemma start_preserves:
  assumes "P (snd (configure e (opt_configURL opts) (opt_expName opts) s))"
    and "\<And>s. P s \<Longrightarrow> P (start_participant e s)"
    and "\<And>s. P s \<Longrightarrow> P (snd (start_session e opts s))"
    and "\<And>s. P s \<Longrightarrow> P (snd (start_scheduler e opts s))"
    and "\<And>s. P s \<Longrightarrow> P (s\<lparr>this_status := ERROR\<rparr>)"
  shows "P (snd (start e opts s))"
  unfolding start_def
  apply (rule catch_preserves [where P = P])
   apply (rule andThen_preserves [where P = P])
    apply (rule andThen_preserves [where P = P])
     apply (simp_all add: assms Let_def)
  done

lemma start_configure_throws:
  assumes "configure e (opt_configURL opts) (opt_expName opts) s = (Throws err, s')"
  shows "start e opts s = (Throws (start_error err), s'\<lparr>this_status := ERROR\<rparr>)"
  by (simp add: start_def assms andThen_def catch_def start_error_def)

lemma quit_None: "this_experiment s = None \<Longrightarrow> quit e q s = (Throws ErrTypeError, s)"
  by (simp add: quit_def)

lemma quit_stop_Returns:
  "get_resultsUpload s = Some ru \<Longrightarrow> fst (quit_stop b s) = Returns"
  by (simp add: quit_stop_def stopUpload_def andThen_def call_def Let_def get_resultsUpload_def
      get_experiment_def)

lemma quit_save_Returns:
  "experiment_save e = None \<Longrightarrow> logger_flush e = None \<Longrightarrow> fst (quit_save e q b s) = Returns"
  by (simp add: quit_save_def andThen_def await_def Let_def)

subsection \<open>Reading the upload options\<close>

lemma get_resultsUpload_config:
  "get_resultsUpload s = (case this_config s of None \<Rightarrow> None | Some c \<Rightarrow> upload_options c)"
  by (simp add: get_resultsUpload_def get_experiment_def upload_options_def
      split: option.split block.split)

lemma get_resultsUpload_simps [simp]:
  "get_resultsUpload (s\<lparr>effects := evs\<rparr>) = get_resultsUpload s"
  "get_resultsUpload (s\<lparr>this_status := st\<rparr>) = get_resultsUpload s"
  "get_resultsUpload (s\<lparr>this_experiment := eh\<rparr>) = get_resultsUpload s"
  "get_resultsUpload (s\<lparr>this_IP := ip\<rparr>) = get_resultsUpload s"
  "get_resultsUpload (s\<lparr>this_surveyId := sid\<rparr>) = get_resultsUpload s"
  "get_resultsUpload (s\<lparr>this_window := w\<rparr>) = get_resultsUpload s"
  "get_resultsUpload (s\<lparr>this_config := Some c\<rparr>) = upload_options c"
  "get_resultsUpload (map_resultsUpload f s) = map_option f (get_resultsUpload s)"
  by (simp_all add: get_resultsUpload_config map_resultsUpload_def upload_options_def
      split: option.split block.split)

lemma saveIncomplete_simps [simp]:
  "saveIncomplete (s\<lparr>effects := evs\<rparr>) = saveIncomplete s"
  "saveIncomplete (s\<lparr>this_status := st\<rparr>) = saveIncomplete s"
  "saveIncomplete (s\<lparr>this_experiment := eh\<rparr>) = saveIncomplete s"
  by (simp_all add: saveIncomplete_def get_experiment_def)

lemma get_experiment_map_resultsUpload:
  "get_experiment (map_resultsUpload f s) =
     map_option (\<lambda>ex. ex\<lparr>resultsUpload := map_option f (resultsUpload ex)\<rparr>) (get_experiment s)"
  by (simp add: get_experiment_def map_resultsUpload_def split: option.split block.split)

lemma saveIncomplete_map_resultsUpload [simp]:
  "saveIncomplete (map_resultsUpload f s) = saveIncomplete s"
  by (cases "get_experiment s") (simp_all add: saveIncomplete_def get_experiment_map_resultsUpload)

lemma map_resultsUpload_simps [simp]:
  "effects (map_resultsUpload f s) = effects s"
  "this_serverMsg (map_resultsUpload f s) = this_serverMsg s"
  "this_saveResults (map_resultsUpload f s) = this_saveResults s"
  "this_window (map_resultsUpload f s) = this_window s"
  "this_status (map_resultsUpload f s) = this_status s"
  "this_experiment (map_resultsUpload f s) = this_experiment s"
  by (simp_all add: map_resultsUpload_def)

lemma period_off_simps [simp]:
  "period_off (s\<lparr>effects := evs\<rparr>) = period_off s"
  "period_off (s\<lparr>this_status := st\<rparr>) = period_off s"
  "period_off (s\<lparr>this_experiment := eh\<rparr>) = period_off s"
  by (simp_all add: period_off_def)

lemmas step_defs =
  quit_stop_def quit_save_def quit_closeSession_def quit_acknowledge_def onTerminate_def
  stopUpload_def unload_def start_participant_def start_session_def start_upload_def
  start_scheduler_def andThen_def await_def call_def Let_def

subsection \<open>What the steps of \<^verbatim>\<open>start\<close> and \<^verbatim>\<open>quit\<close> leave alone\<close>

lemma steps_serverMsg:
  "this_serverMsg (snd (quit_stop b s)) = this_serverMsg s"
  "this_serverMsg (snd (quit_save e q b s)) = this_serverMsg s"
  "this_serverMsg (snd (quit_closeSession e q b s)) = this_serverMsg s"
  "this_serverMsg (snd (quit_acknowledge q s)) = this_serverMsg s"
  "this_serverMsg (snd (onTerminate q s)) = this_serverMsg s"
  "this_serverMsg (snd (unload s)) = this_serverMsg s"
  "this_serverMsg (start_participant e s) = this_serverMsg s"
  "this_serverMsg (snd (start_session e opts s)) = this_serverMsg s"
  "this_serverMsg (snd (start_scheduler e opts s)) = this_serverMsg s"
  by (simp_all add: step_defs split: option.split sum.split)

lemma steps_saveResults:
  "this_saveResults (snd (quit_stop b s)) = this_saveResults s"
  "this_saveResults (snd (quit_save e q b s)) = this_saveResults s"
  "this_saveResults (snd (quit_closeSession e q b s)) = this_saveResults s"
  "this_saveResults (snd (quit_acknowledge q s)) = this_saveResults s"
  "this_saveResults (snd (onTerminate q s)) = this_saveResults s"
  "this_saveResults (snd (unload s)) = this_saveResults s"
  "this_saveResults (start_participant e s) = this_saveResults s"
  "this_saveResults (snd (start_session e opts s)) = this_saveResults s"
  "this_saveResults (snd (start_scheduler e opts s)) = this_saveResults s"
  by (simp_all add: step_defs split: option.split sum.split)

lemma saves_simps [simp]:
  "saves (s\<lparr>this_status := st\<rparr>) = saves s"
  "saves (s\<lparr>this_experiment := eh\<rparr>) = saves s"
  by (simp_all add: saves_def)

lemma steps_saves:
  "saves (snd (quit_stop b s)) = saves s"
  "saves (snd (quit_closeSession e q b s)) = saves s"
  "saves (snd (quit_acknowledge q s)) = saves s"
  "saves (snd (onTerminate q s)) = saves s"
  "saves (start_participant e s) = saves s"
  "saves (snd (start_session e opts s)) = saves s"
  "saves (snd (start_scheduler e opts s)) = saves s"
  "\<not> this_saveResults s \<Longrightarrow> saves (snd (quit_save e q b s)) = saves s"
  "\<not> this_saveResults s \<Longrightarrow> saves (snd (unload s)) = saves s"
  by (simp_all add: saves_def step_defs split: option.split sum.split)

lemma timer_unarmed_simps [simp]:
  "timer_unarmed (s\<lparr>this_status := st\<rparr>) = timer_unarmed s"
  "timer_unarmed (s\<lparr>this_experiment := eh\<rparr>) = timer_unarmed s"
  by (simp_all add: timer_unarmed_def)

lemma steps_unarmed:
  "timer_unarmed s \<Longrightarrow> timer_unarmed (snd (quit_stop b s))"
  "timer_unarmed s \<Longrightarrow> timer_unarmed (snd (quit_save e q b s))"
  "timer_unarmed s \<Longrightarrow> timer_unarmed (snd (quit_closeSession e q b s))"
  "timer_unarmed s \<Longrightarrow> timer_unarmed (snd (quit_acknowledge q s))"
  "timer_unarmed s \<Longrightarrow> timer_unarmed (snd (onTerminate q s))"
  "timer_unarmed s \<Longrightarrow> timer_unarmed (snd (unload s))"
  "timer_unarmed s \<Longrightarrow> timer_unarmed (start_participant e s)"
  "timer_unarmed s \<Longrightarrow> timer_unarmed (snd (start_scheduler e opts s))"
  by (auto simp: timer_unarmed_def step_defs split: option.splits)

lemma steps_SetInterval:
  "filter is_SetInterval (effects (start_participant e s)) = filter is_SetInterval (effects s)"
  "filter is_SetInterval (effects (snd (start_scheduler e opts s))) =
     filter is_SetInterval (effects s)"
  "\<not> this_saveResults s \<Longrightarrow>
   filter is_SetInterval (effects (snd (start_session e opts s))) =
     filter is_SetInterval (effects s)"
  "filter is_SetInterval (effects (snd (quit_stop b s))) = filter is_SetInterval (effects s)"
  "filter is_SetInterval (effects (snd (quit_save e q b s))) = filter is_SetInterval (effects s)"
  "filter is_SetInterval (effects (snd (quit_closeSession e q b s))) =
     filter is_SetInterval (effects s)"
  "filter is_SetInterval (effects (snd (quit_acknowledge q s))) =
     filter is_SetInterval (effects s)"
  "filter is_SetInterval (effects (snd (unload s))) = filter is_SetInterval (effects s)"
  by (simp_all add: step_defs split: option.split sum.split)

lemma steps_resultsUpload:
  "get_resultsUpload (start_participant e s) = get_resultsUpload s"
  "get_resultsUpload (snd (start_scheduler e opts s)) = get_resultsUpload s"
  by (simp_all add: step_defs)

subsection \<open>The periodic upload in \<^verbatim>\<open>start\<close>\<close>

text \<open>Either \<^verbatim>\<open>start\<close> leaves the timer alone, or the period is positive.\<close>

lemma start_upload_result:
  "snd (start_upload e s) = s \<or>
   (\<exists>ru. get_resultsUpload (snd (start_upload e s)) = Some ru \<and> 0 < period ru)"
proof (cases "this_saveResults s")
  case False
  then show ?thesis by (simp add: start_upload_def)
next
  case True
  show ?thesis
  proof (cases "get_resultsUpload s")
    case None
    with True show ?thesis by (simp add: start_upload_def)
  next
    case (Some ru)
    with True show ?thesis by (simp add: start_upload_def call_def)
  qed
qed

lemma start_session_result:
  "(filter is_SetInterval (effects (snd (start_session e opts s))) =
      filter is_SetInterval (effects s) \<and>
    this_config (snd (start_session e opts s)) = this_config s) \<or>
   (\<exists>s3 ps c c'.
      snd (start_session e opts s) = snd (start_upload e s3) \<and>
      filter is_SetInterval (effects s3) = filter is_SetInterval (effects s) \<and>
      this_config s = Some c \<and> openSession e ps c = Inr c' \<and> this_config s3 = Some c')"
proof (cases "this_serverMsg s")
  case None
  then show ?thesis by (simp add: start_session_def)
next
  case (Some m)
  define params where "params =
     (case m ''__pilotToken'' of Some t \<Rightarrow> [(''pilotToken'', t)] | None \<Rightarrow> []) @
     (case opt_surveyId opts of Some i \<Rightarrow> [(''surveyId'', i)] | None \<Rightarrow> [])"
  define s2 where "s2 = call (OpenSession params)
     (case opt_surveyId opts of Some i \<Rightarrow> s\<lparr>this_surveyId := Some i\<rparr> | None \<Rightarrow> s)"
  have s2: "this_config s2 = this_config s" "effects s2 = effects s @ [OpenSession params]"
    by (simp_all add: s2_def call_def split: option.split)
  have run: "start_session e opts s =
    (case this_config s2 of
       None \<Rightarrow> (Throws ErrTypeError, s2)
     | Some c \<Rightarrow>
         (case openSession e params c of
            Inl err \<Rightarrow> (Throws err, s2)
          | Inr c' \<Rightarrow>
              start_upload e
                (call (AddEventListener ''unload'')
                   (call (AddEventListener ''beforeunload'') (s2\<lparr>this_config := Some c'\<rparr>)))))"
    unfolding start_session_def Some option.case Let_def params_def s2_def
    by (rule refl)
  show ?thesis
  proof (cases "this_config s")
    case None
    then show ?thesis
      by (simp add: run s2)
  next
    case c: (Some c)
    show ?thesis
    proof (cases "openSession e params c")
      case (Inl err)
      then show ?thesis
        by (simp add: run c s2)
    next
      case (Inr c')
      let ?s3 = "call (AddEventListener ''unload'')
                   (call (AddEventListener ''beforeunload'') (s2\<lparr>this_config := Some c'\<rparr>))"
      have "snd (start_session e opts s) = snd (start_upload e ?s3)"
        by (simp add: run s2 c Inr)
      moreover have "filter is_SetInterval (effects ?s3) = filter is_SetInterval (effects s)"
        by (simp add: call_def s2)
      moreover have "this_config ?s3 = Some c'"
        by (simp add: call_def)
      ultimately show ?thesis
        using c Inr by blast
    qed
  qed
qed

lemma start_session_period_off:
  assumes "period_off (snd (start_session e opts s))"
  shows "filter is_SetInterval (effects (snd (start_session e opts s))) =
         filter is_SetInterval (effects s)"
proof -
  consider
      (same) "filter is_SetInterval (effects (snd (start_session e opts s))) =
         filter is_SetInterval (effects s)"
    | (opened) s3 where "snd (start_session e opts s) = snd (start_upload e s3)"
        "filter is_SetInterval (effects s3) = filter is_SetInterval (effects s)"
    using start_session_result [of e opts s] by blast
  then show ?thesis
  proof cases
    case same
    then show ?thesis .
  next
    case opened
    have "snd (start_upload e s3) = s3"
      using start_upload_result [of e s3] assms opened(1) by (auto simp: period_off_def)
    then show ?thesis
      using opened by simp
  qed
qed

lemma start_session_unarmed:
  assumes keeps: "\<And>ps c c'. identifier_unset c \<Longrightarrow> openSession e ps c = Inr c' \<Longrightarrow>
      identifier_unset c'"
    and unarmed: "timer_unarmed s"
    and off: "period_off (snd (start_session e opts s))"
  shows "timer_unarmed (snd (start_session e opts s))"
proof -
  consider
      (same) "filter is_SetInterval (effects (snd (start_session e opts s))) =
         filter is_SetInterval (effects s)"
        "this_config (snd (start_session e opts s)) = this_config s"
    | (opened) s3 ps c c' where "snd (start_session e opts s) = snd (start_upload e s3)"
        "filter is_SetInterval (effects s3) = filter is_SetInterval (effects s)"
        "this_config s = Some c" "openSession e ps c = Inr c'" "this_config s3 = Some c'"
    using start_session_result [of e opts s] by blast
  then show ?thesis
  proof cases
    case same
    then show ?thesis
      using unarmed by (simp add: timer_unarmed_def get_resultsUpload_config)
  next
    case opened
    have "identifier_unset c"
      using unarmed opened(3)
      by (simp add: timer_unarmed_def get_resultsUpload_config identifier_unset_def)
    then have "identifier_unset c'"
      using opened(4) by (rule keeps)
    then have s3: "timer_unarmed s3"
      using unarmed opened(2,5)
      by (simp add: timer_unarmed_def get_resultsUpload_config identifier_unset_def)
    have "snd (start_upload e s3) = s3"
      using start_upload_result [of e s3] off opened(1) by (auto simp: period_off_def)
    then show ?thesis
      using s3 opened(1) by simp
  qed
qed

text \<open>What \<^verbatim>\<open>start\<close> establishes from what its call of \<^verbatim>\<open>_configure\<close> leaves.\<close>

lemma andThen_establishes:
  "P (snd r) \<Longrightarrow> (\<And>s. P s \<Longrightarrow> Q (snd (f s))) \<Longrightarrow> (\<And>s. P s \<Longrightarrow> Q s) \<Longrightarrow>
   Q (snd (andThen r f))"
  by (cases r) (auto simp: andThen_def split: outcome.splits)

lemma start_establishes:
  assumes "P (snd (configure e (opt_configURL opts) (opt_expName opts) s))"
    and "\<And>s. P s \<Longrightarrow> P (start_participant e s)"
    and "\<And>s. P s \<Longrightarrow> Q (snd (start_session e opts s))"
    and "\<And>s. P s \<Longrightarrow> Q s"
    and "\<And>s. Q s \<Longrightarrow> Q (snd (start_scheduler e opts s))"
    and "\<And>s. Q s \<Longrightarrow> Q (s\<lparr>this_status := ERROR\<rparr>)"
  shows "Q (snd (start e opts s))"
  unfolding start_def
  apply (rule catch_preserves [where P = Q])
   apply (rule andThen_preserves [where P = Q])
    apply (rule andThen_establishes [where P = P and Q = Q])
      apply (simp_all add: assms Let_def)
  done

subsection \<open>The sample runs\<close>

lemma hosts_default:
  "this_hosts (new_PsychoJS default_options) =
     [''https://devlovia.org/run/'', ''https://pavlovia.org/run/'',
      ''https://run.devlovia.org/'', ''https://run.pavlovia.org/'']"
  by (simp add: new_PsychoJS_def default_options_def pavloviaHosts_def)

lemma pavlovia_run_isHost: "isHost (this_hosts (new_PsychoJS default_options)) pavlovia_run"
  by (simp add: hosts_default isHost_def indexOf_zero_iff pavlovia_run_def)

lemma local_run_not_isHost: "\<not> isHost (this_hosts (new_PsychoJS default_options)) local_run"
  by (simp add: hosts_default isHost_def indexOf_zero_iff local_run_def)

lemma browser_simps [simp]:
  "location_href (browser href params fetched) = href"
  "getUrlParameters (browser href params fetched) = params"
  "getConfiguration (browser href params fetched) url = Inr fetched"
  by (simp_all add: browser_def)


lemma modern_first_missing: "first_missing (update_legacy modern_config) = None"
  by (simp add: first_missing_def required_fields_def update_legacy_def modern_config_def)

lemma mixed_first_missing: "first_missing (update_legacy mixed_config) = None"
  by (simp add: first_missing_def required_fields_def update_legacy_def mixed_config_def
      modern_config_def)

lemma blank_first_missing: "first_missing (update_legacy blank_config) = None"
  by (simp add: first_missing_def required_fields_def update_legacy_def blank_config_def
      modern_config_def)

lemma failing_close_simps [simp]:
  "location_href failing_close = pavlovia_run"
  "getUrlParameters failing_close = []"
  "getConfiguration failing_close url = Inr modern_config"
  "openSession failing_close ps c = Inr (c\<lparr>session := Some \<lparr> status = Some ''OPEN'' \<rparr>\<rparr>)"
  "closeSession failing_close completed = Some (ErrString ''Failed to fetch'')"
  "experiment_save failing_close = None"
  "logger_flush failing_close = None"
  "webGLSupport failing_close = True"
  "newExperimentHandler failing_close = \<lparr> experimentEnded = False, isCompleted = False \<rparr>"
  by (simp_all add: failing_close_def browser_def)

lemma running_facts:
  "this_experiment running = Some \<lparr> experimentEnded = False, isCompleted = False \<rparr>"
  "getEnvironment running = Some SERVER"
  "get_resultsUpload running =
     Some \<lparr> intervalId = - 1, period = - 1, lastUploadTimestamp = None \<rparr>"
  "this_status running = STARTED"
  "this_window running"
proof -
  have host: "isHost (this_hosts (new_PsychoJS default_options)) (location_href failing_close)"
    using pavlovia_run_isHost by simp
  have fetched: "getConfiguration failing_close (opt_configURL default_start_options) =
     Inr modern_config"
    by simp
  note conf = configure_accepts [OF host fetched modern_first_missing,
      of "opt_expName default_start_options"]
  have upd: "update_legacy modern_config = modern_config"
    by (simp add: update_legacy_def modern_config_def)
  have started: "start failing_close default_start_options (new_PsychoJS default_options) =
    (Returns, snd (start failing_close default_start_options (new_PsychoJS default_options)))"
    "this_experiment (snd (start failing_close default_start_options
        (new_PsychoJS default_options))) =
      Some \<lparr> experimentEnded = False, isCompleted = False \<rparr>"
    "getEnvironment (snd (start failing_close default_start_options
        (new_PsychoJS default_options))) = Some SERVER"
    "get_resultsUpload (snd (start failing_close default_start_options
        (new_PsychoJS default_options))) =
      Some \<lparr> intervalId = - 1, period = - 1, lastUploadTimestamp = None \<rparr>"
    "this_status (snd (start failing_close default_start_options
        (new_PsychoJS default_options))) = STARTED"
    "\<not> this_window (snd (start failing_close default_start_options
        (new_PsychoJS default_options)))"
    unfolding start_def conf upd
    by (simp_all add: step_defs catch_def getEnvironment_def
        get_resultsUpload_config upload_options_def get_experiment_def message_board_def new_PsychoJS_def
        default_options_def modern_config_def default_start_options_def Status_defs)
  show "this_experiment running = Some \<lparr> experimentEnded = False, isCompleted = False \<rparr>"
    "getEnvironment running = Some SERVER"
    "get_resultsUpload running =
       Some \<lparr> intervalId = - 1, period = - 1, lastUploadTimestamp = None \<rparr>"
    "this_status running = STARTED"
    "this_window running"
    using started(2-6)
    by (simp_all add: running_def openWindow_def getEnvironment_def get_resultsUpload_def
        get_experiment_def)
qed

lemma running_effects:
  "effects running =
     [GetConfiguration ''config.json'', NewExperimentHandler, OpenSession [],
      AddEventListener ''beforeunload'', AddEventListener ''unload'', PrepareResources [],
      SchedulerStart]"
  "this_saveResults running"
  "saveIncomplete running"
proof -
  have host: "isHost (this_hosts (new_PsychoJS default_options)) (location_href failing_close)"
    using pavlovia_run_isHost by simp
  have fetched: "getConfiguration failing_close (opt_configURL default_start_options) =
     Inr modern_config"
    by simp
  note conf = configure_accepts [OF host fetched modern_first_missing,
      of "opt_expName default_start_options"]
  have upd: "update_legacy modern_config = modern_config"
    by (simp add: update_legacy_def modern_config_def)
  show "effects running =
     [GetConfiguration ''config.json'', NewExperimentHandler, OpenSession [],
      AddEventListener ''beforeunload'', AddEventListener ''unload'', PrepareResources [],
      SchedulerStart]"
    "this_saveResults running"
    "saveIncomplete running"
    unfolding running_def start_def conf upd
    by (simp_all add: step_defs catch_def getEnvironment_def openWindow_def saveIncomplete_def
        get_resultsUpload_config upload_options_def get_experiment_def message_board_def new_PsychoJS_def
        default_options_def modern_config_def default_start_options_def Status_defs)
qed

lemma upload_every_simps [simp]:
  "location_href (upload_every m) = pavlovia_run"
  "getUrlParameters (upload_every m) = []"
  "getConfiguration (upload_every m) url = Inr modern_config"
  "openSession (upload_every m) ps c = Inr
          (c\<lparr>session := Some \<lparr> status = Some ''OPEN'' \<rparr>,
             experiment' := map_option
               (map_block (\<lambda>ex. ex\<lparr>resultsUpload :=
                  map_option (\<lambda>r. r\<lparr>period := m\<rparr>) (resultsUpload ex)\<rparr>))
               (experiment' c)\<rparr>)"
  "multiply (upload_every m) x y = x * y"
  "closeSession (upload_every m) completed = None"
  "experiment_save (upload_every m) = None"
  "logger_flush (upload_every m) = None"
  "webGLSupport (upload_every m) = True"
  "setInterval (upload_every m) = 1"
  "newExperimentHandler (upload_every m) = \<lparr> experimentEnded = False, isCompleted = False \<rparr>"
  by (simp_all add: upload_every_def browser_def)

lemma upload_every_started:
  "fst (start (upload_every m) default_start_options (new_PsychoJS default_options)) = Returns"
  "get_resultsUpload (snd (start (upload_every m) default_start_options
      (new_PsychoJS default_options))) =
     Some \<lparr> intervalId = (if m > 0 then 1 else - 1), period = m, lastUploadTimestamp = None \<rparr>"
  "filter is_SetInterval (effects (snd (start (upload_every m) default_start_options
      (new_PsychoJS default_options)))) =
     (if m > 0 then [SetInterval (m * 60 * 1000)] else [])"
proof -
  have host: "isHost (this_hosts (new_PsychoJS default_options)) (location_href (upload_every m))"
    using pavlovia_run_isHost by simp
  have fetched: "getConfiguration (upload_every m) (opt_configURL default_start_options) =
     Inr modern_config"
    by simp
  note conf = configure_accepts [OF host fetched modern_first_missing,
      of "opt_expName default_start_options"]
  have upd: "update_legacy modern_config = modern_config"
    by (simp add: update_legacy_def modern_config_def)
  show "fst (start (upload_every m) default_start_options (new_PsychoJS default_options)) =
      Returns"
    "get_resultsUpload (snd (start (upload_every m) default_start_options
      (new_PsychoJS default_options))) =
     Some \<lparr> intervalId = (if m > 0 then 1 else - 1), period = m, lastUploadTimestamp = None \<rparr>"
    "filter is_SetInterval (effects (snd (start (upload_every m) default_start_options
      (new_PsychoJS default_options)))) =
     (if m > 0 then [SetInterval (m * 60 * 1000)] else [])"
    unfolding start_def conf upd
    by (simp_all add: step_defs catch_def getEnvironment_def
        get_resultsUpload_config upload_options_def get_experiment_def message_board_def
        new_PsychoJS_def map_resultsUpload_def
        default_options_def modern_config_def default_start_options_def)
qed

text \<open>With a period of five minutes the timer is armed, for 300000 milliseconds.\<close>

lemma periodic_upload_armed:
  "filter is_SetInterval (effects (snd (start (upload_every 5) default_start_options
      (new_PsychoJS default_options)))) = [SetInterval 300000] \<and>
   \<not> timer_unarmed (snd (start (upload_every 5) default_start_options
      (new_PsychoJS default_options)))"
  by (simp add: upload_every_started timer_unarmed_def)

lemma pilot_simps [simp]:
  "location_href pilot = local_run"
  "getUrlParameters pilot = pilot_parameters"
  by (simp_all add: pilot_def)

lemma pilot_board:
  "message_board pilot_parameters ''__pilotToken'' = Some ''xyz''"
  "message_board pilot_parameters ''__noOutput'' = Some []"
  "message_board pilot_parameters ''participant'' = None"
  by (simp_all add: message_board_def pilot_parameters_def)

lemma pilot_configured:
  "configure pilot ''config.json'' ''UNKNOWN'' (new_PsychoJS default_options) =
     (Returns, snd (configure pilot ''config.json'' ''UNKNOWN'' (new_PsychoJS default_options)))"
  using local_run_not_isHost by (simp add: configure_local_eq)

section \<open>The claims\<close>




text \<open>
  C2 (amended). In a run on the server, when \<^verbatim>\<open>quit\<close> gets as far as closing the session
  (the experiment handler and the upload options exist, saving and flushing succeed) and
  \<^verbatim>\<open>closeSession\<close> fails, \<^verbatim>\<open>quit\<close> sets the status to \<^verbatim>\<open>ERROR\<close> and throws the object with
  origin \<^verbatim>\<open>PsychoJS.quit\<close> around the failure; the call of \<^verbatim>\<open>closeSession\<close> is the last thing
  it did, so the participant is not thanked and nothing is closed.
\<close>

theorem quit_closeSession_throws:
  assumes "this_experiment s = Some eh"
    and "getEnvironment s = Some SERVER"
    and "get_resultsUpload s = Some ru"
    and "experiment_save e = None"
    and "logger_flush e = None"
    and "closeSession e (opt_isCompleted q) = Some err"
  shows "fst (quit e q s) =
           Throws (ErrObject ''PsychoJS.quit'' ''when terminating the experiment'' err) \<and>
         this_status (snd (quit e q s)) = ERROR \<and>
         last (effects (snd (quit e q s))) = CloseSession (opt_isCompleted q) False"
proof -
  let ?s1 = "s\<lparr>this_experiment :=
                  Some (eh\<lparr>experimentEnded := True, isCompleted := opt_isCompleted q\<rparr>),
                this_status := STOPPED\<rparr>"
  have env: "getEnvironment ?s1 = Some SERVER"
    using assms(2) by (simp add: getEnvironment_def)
  have "get_resultsUpload ?s1 = Some ru"
    using assms(3) by simp
  then have stop: "fst (quit_stop True ?s1) = Returns"
    by (rule quit_stop_Returns)
  have save: "fst (quit_save e q True (snd (quit_stop True ?s1))) = Returns"
    using assms(4,5) by (rule quit_save_Returns)
  have "quit e q s =
     catch
       (andThen
          (quit_closeSession e q True (snd (quit_save e q True (snd (quit_stop True ?s1)))))
          (quit_acknowledge q))
       (\<lambda>err s'. (Throws (ErrObject ''PsychoJS.quit'' ''when terminating the experiment'' err),
                   s'\<lparr>this_status := ERROR\<rparr>))"
    by (simp add: quit_def assms(1) env Let_def andThen_Returns stop save)
  then show ?thesis
    by (simp add: quit_closeSession_def assms(6) await_def andThen_def catch_def call_def)
qed

theorem quit_closeSession_throws_witness:
  "fst (quit failing_close default_quit_options running) =
     Throws (ErrObject ''PsychoJS.quit'' ''when terminating the experiment''
               (ErrString ''Failed to fetch'')) \<and>
   this_status (snd (quit failing_close default_quit_options running)) = ERROR \<and>
   last (effects (snd (quit failing_close default_quit_options running))) =
     CloseSession False False"
  using quit_closeSession_throws [OF running_facts(1,2,3), of failing_close default_quit_options
      "ErrString ''Failed to fetch''"]
  by (simp add: default_quit_options_def)

text \<open>
  C2 as stated fails on a started run on the server whose \<^verbatim>\<open>closeSession\<close> fails: \<^verbatim>\<open>quit\<close>
  throws, the status is \<^verbatim>\<open>ERROR\<close>, and the calls it made end with \<^verbatim>\<open>closeSession\<close>.
\<close>

theorem quit_closeSession_swallowed_counterexample:
  "getEnvironment running = Some SERVER \<and>
   closeSession failing_close (opt_isCompleted default_quit_options) =
     Some (ErrString ''Failed to fetch'') \<and>
   fst (quit failing_close default_quit_options running) =
     Throws (ErrObject ''PsychoJS.quit'' ''when terminating the experiment''
               (ErrString ''Failed to fetch'')) \<and>
   this_status (snd (quit failing_close default_quit_options running)) = ERROR \<and>
   effects (snd (quit failing_close default_quit_options running)) =
     effects running @
     [SchedulerStop, RemoveEventListener ''beforeunload'', FinishDialog 3,
      FinishDialogNextStep ''saving results'', ExperimentSave False,
      FinishDialogNextStep ''saving logs'', LoggerFlush,
      FinishDialogNextStep ''closing the session'', CloseSession False False]"
proof -
  have q: "fst (quit failing_close default_quit_options running) =
     Throws (ErrObject ''PsychoJS.quit'' ''when terminating the experiment''
               (ErrString ''Failed to fetch''))"
    "this_status (snd (quit failing_close default_quit_options running)) = ERROR"
    "effects (snd (quit failing_close default_quit_options running)) =
     effects running @
     [SchedulerStop, RemoveEventListener ''beforeunload'', FinishDialog 3,
      FinishDialogNextStep ''saving results'', ExperimentSave False,
      FinishDialogNextStep ''saving logs'', LoggerFlush,
      FinishDialogNextStep ''closing the session'', CloseSession False False]"
    using running_facts(2,3) running_effects(2,3)
    by (simp_all add: quit_def running_facts(1) step_defs catch_def getEnvironment_def
        default_quit_options_def)
  show ?thesis
    using q running_facts(2) by (simp add: default_quit_options_def)
qed

text \<open>
  C3 (amended). For every valid server configuration response (one with every required
  field) that has no legacy \<^verbatim>\<open>psychoJsManager\<close> block, \<^verbatim>\<open>_configure\<close> on an approved host
  returns with status \<^verbatim>\<open>CONFIGURED\<close> and a configuration whose environment is \<^verbatim>\<open>SERVER\<close> and
  whose pavlovia URL and gitlab projectId are those of the response.
\<close>

theorem configure_valid_response:
  assumes "isHost (this_hosts s) (location_href e)"
    and "getConfiguration e configURL = Inr fetched"
    and "valid_response fetched"
    and "psychoJsManager fetched = None"
  shows "\<exists>s' c u i.
     configure e configURL nm s = (Returns, s') \<and>
     this_status s' = CONFIGURED \<and>
     this_config s' = Some c \<and>
     environment c = Some SERVER \<and>
     sessionURL c = Some u \<and> sessionURL fetched = Some u \<and>
     gitlabProjectId c = Some i \<and> gitlabProjectId fetched = Some i"
proof -
  have same: "update_legacy fetched = fetched"
    using assms(4) by (rule update_legacy_modern)
  have none: "first_missing (update_legacy fetched) = None"
    using assms(3) by (simp add: same first_missing_None_iff)
  have "\<not> is_missing Pavlovia_URL fetched" "\<not> is_missing Gitlab_projectId fetched"
    using assms(3) by (simp_all add: valid_response_def required_fields_def)
  then obtain u i where "sessionURL fetched = Some u" "gitlabProjectId fetched = Some i"
    by (auto simp: sessionURL_def gitlabProjectId_def split: option.splits block.splits)
  then show ?thesis
    by (simp add: configure_accepts [OF assms(1,2) none] same sessionURL_def
        gitlabProjectId_def)
qed

theorem configure_valid_response_witness:
  "\<exists>s' c u i.
     configure (browser pavlovia_run [] modern_config) ''config.json'' ''stroop''
       (new_PsychoJS default_options) = (Returns, s') \<and>
     this_status s' = CONFIGURED \<and>
     this_config s' = Some c \<and>
     environment c = Some SERVER \<and>
     sessionURL c = Some u \<and> sessionURL modern_config = Some u \<and>
     gitlabProjectId c = Some i \<and> gitlabProjectId modern_config = Some i"
proof -
  have host: "isHost (this_hosts (new_PsychoJS default_options))
     (location_href (browser pavlovia_run [] modern_config))"
    using pavlovia_run_isHost by simp
  have fetched: "getConfiguration (browser pavlovia_run [] modern_config) ''config.json'' =
     Inr modern_config"
    by simp
  have valid: "valid_response modern_config"
    by (simp add: valid_response_def required_fields_def modern_config_def)
  have modern: "psychoJsManager modern_config = None"
    by (simp add: modern_config_def)
  show ?thesis
    by (rule configure_valid_response [OF host fetched valid modern])
qed

text \<open>
  C3 as stated fails on a response that has every required field and a legacy block as
  well: its pavlovia URL is \<^verbatim>\<open>https://example.org\<close>, and the configuration
  \<^verbatim>\<open>_configure\<close> produces has \<^verbatim>\<open>https://pavlovia.org\<close>.
\<close>

theorem configure_valid_response_counterexample:
  "isHost (this_hosts (new_PsychoJS default_options))
     (location_href (browser pavlovia_run [] mixed_config)) \<and>
   getConfiguration (browser pavlovia_run [] mixed_config) ''config.json'' = Inr mixed_config \<and>
   valid_response mixed_config \<and>
   sessionURL mixed_config = Some (JStr ''https://example.org'') \<and>
   fst (configure (browser pavlovia_run [] mixed_config) ''config.json'' ''stroop''
          (new_PsychoJS default_options)) = Returns \<and>
   map_option sessionURL
     (this_config (snd (configure (browser pavlovia_run [] mixed_config) ''config.json''
          ''stroop'' (new_PsychoJS default_options)))) =
     Some (Some (JStr ''https://pavlovia.org''))"
proof -
  have host: "isHost (this_hosts (new_PsychoJS default_options))
     (location_href (browser pavlovia_run [] mixed_config))"
    using pavlovia_run_isHost by simp
  have fetched: "getConfiguration (browser pavlovia_run [] mixed_config) ''config.json'' =
     Inr mixed_config"
    by simp
  have valid: "valid_response mixed_config"
    by (simp add: valid_response_def required_fields_def mixed_config_def modern_config_def)
  have url: "sessionURL mixed_config = Some (JStr ''https://example.org'')"
    by (simp add: sessionURL_def mixed_config_def modern_config_def)
  have url': "sessionURL (update_legacy mixed_config) = Some (JStr ''https://pavlovia.org'')"
    by (simp add: sessionURL_def update_legacy_def mixed_config_def modern_config_def)
  have after: "map_option sessionURL
     (this_config (snd (configure (browser pavlovia_run [] mixed_config) ''config.json''
          ''stroop'' (new_PsychoJS default_options)))) =
     Some (sessionURL (update_legacy mixed_config))"
    by (simp add: configure_accepts [OF host fetched mixed_first_missing] sessionURL_def)
  have ret: "fst (configure (browser pavlovia_run [] mixed_config) ''config.json'' ''stroop''
          (new_PsychoJS default_options)) = Returns"
    by (simp add: configure_accepts [OF host fetched mixed_first_missing])
  show ?thesis
    using host fetched valid url ret after url' by simp
qed

text \<open>
  C4 (amended). Every configuration \<^verbatim>\<open>_configure\<close> accepts with environment \<^verbatim>\<open>SERVER\<close> has
  the keys \<^verbatim>\<open>pavlovia.URL\<close> and \<^verbatim>\<open>gitlab.projectId\<close>, whatever their values. A fetched
  configuration without \<^verbatim>\<open>gitlab.projectId\<close>, or without \<^verbatim>\<open>pavlovia.URL\<close> and without a
  legacy block, is rejected: \<^verbatim>\<open>start\<close> throws the error of \<^verbatim>\<open>_configure\<close> inside its own
  and sets the status to \<^verbatim>\<open>ERROR\<close>. The error of \<^verbatim>\<open>_configure\<close> holds what the test of a
  missing field threw: the message that names the field, or the \<^verbatim>\<open>TypeError\<close> of \<^verbatim>\<open>in\<close> when the
  block of the field is not an object.
\<close>

theorem server_configuration_has_keys:
  "(configure e configURL nm s = (Returns, s') \<and> getEnvironment s' = Some SERVER \<longrightarrow>
      (\<exists>c u i. this_config s' = Some c \<and> sessionURL c = Some u \<and> gitlabProjectId c = Some i)) \<and>
   (isHost (this_hosts s) (location_href e) \<and>
    getConfiguration e (opt_configURL opts) = Inr fetched \<and>
    (psychoJsManager fetched = None \<and> is_missing Pavlovia_URL fetched \<or>
     is_missing Gitlab_projectId fetched) \<longrightarrow>
      (\<exists>g. is_missing g fetched \<and>
           fst (start e opts s) =
             Throws (start_error (configure_error (missing_error g fetched))) \<and>
           this_status (snd (start e opts s)) = ERROR))"
proof (intro conjI impI)
  assume a: "configure e configURL nm s = (Returns, s') \<and> getEnvironment s' = Some SERVER"
  show "\<exists>c u i. this_config s' = Some c \<and> sessionURL c = Some u \<and> gitlabProjectId c = Some i"
  proof (cases "isHost (this_hosts s) (location_href e)")
    case False
    with a show ?thesis
      by (auto simp: configure_local_eq getEnvironment_def)
  next
    case host: True
    show ?thesis
    proof (cases "getConfiguration e configURL")
      case (Inl err)
      with a host show ?thesis by (simp add: configure_fetch_fails)
    next
      case (Inr fetched')
      show ?thesis
      proof (cases "first_missing (update_legacy fetched')")
        case (Some g)
        with a host Inr show ?thesis by (simp add: configure_rejects)
      next
        case None
        then have "valid_response (update_legacy fetched')"
          by (simp add: first_missing_None_iff)
        then have "\<not> is_missing Pavlovia_URL (update_legacy fetched')"
          "\<not> is_missing Gitlab_projectId (update_legacy fetched')"
          by (simp_all add: valid_response_def required_fields_def)
        then obtain u i where "sessionURL (update_legacy fetched') = Some u"
          "gitlabProjectId (update_legacy fetched') = Some i"
          by (auto simp: sessionURL_def gitlabProjectId_def split: option.splits block.splits)
        with a show ?thesis
          by (auto simp: configure_accepts [OF host Inr None] sessionURL_def gitlabProjectId_def)
      qed
    qed
  qed
next
  assume b: "isHost (this_hosts s) (location_href e) \<and>
    getConfiguration e (opt_configURL opts) = Inr fetched \<and>
    (psychoJsManager fetched = None \<and> is_missing Pavlovia_URL fetched \<or>
     is_missing Gitlab_projectId fetched)"
  then have "is_missing Pavlovia_URL (update_legacy fetched) \<or>
    is_missing Gitlab_projectId (update_legacy fetched)"
    using is_missing_kept [of Gitlab_projectId fetched] is_missing_kept [of Pavlovia_URL fetched]
    by auto
  then obtain g where g: "first_missing (update_legacy fetched) = Some g"
    using is_missing_first by blast
  then have m': "is_missing g (update_legacy fetched)"
    by (rule first_missing_Some)
  then have m: "is_missing g fetched"
    by (rule is_missing_update_legacy)
  have same: "missing_error g (update_legacy fetched) = missing_error g fetched"
    using m' by (rule missing_error_update_legacy)
  from b have host: "isHost (this_hosts s) (location_href e)"
    and fetched: "getConfiguration e (opt_configURL opts) = Inr fetched" by simp_all
  show "\<exists>g. is_missing g fetched \<and>
           fst (start e opts s) =
             Throws (start_error (configure_error (missing_error g fetched))) \<and>
           this_status (snd (start e opts s)) = ERROR"
    using m start_configure_throws [OF configure_rejects [OF host fetched g]]
    by (intro exI [of _ g]) (simp add: same)
qed

theorem server_configuration_has_keys_witness:
  "(\<exists>c u i. this_config (snd (configure (browser pavlovia_run [] blank_config) ''config.json''
          ''stroop'' (new_PsychoJS default_options))) = Some c \<and>
      sessionURL c = Some u \<and> gitlabProjectId c = Some i) \<and>
   fst (start (browser pavlovia_run [] projectless_config) default_start_options
          (new_PsychoJS default_options)) =
     Throws (start_error (configure_error
       (ErrString ''missing projectId in gitlab block in configuration''))) \<and>
   this_status (snd (start (browser pavlovia_run [] projectless_config)
          default_start_options (new_PsychoJS default_options))) = ERROR"
proof -
  have host: "isHost (this_hosts (new_PsychoJS default_options))
     (location_href (browser pavlovia_run [] blank_config))"
    using pavlovia_run_isHost by simp
  have fetched: "getConfiguration (browser pavlovia_run [] blank_config) ''config.json'' =
     Inr blank_config"
    by simp
  have ret: "configure (browser pavlovia_run [] blank_config) ''config.json'' ''stroop''
          (new_PsychoJS default_options) =
     (Returns, snd (configure (browser pavlovia_run [] blank_config) ''config.json'' ''stroop''
          (new_PsychoJS default_options)))"
    "getEnvironment (snd (configure (browser pavlovia_run [] blank_config) ''config.json''
          ''stroop'' (new_PsychoJS default_options))) = Some SERVER"
    by (simp_all add: configure_accepts [OF host fetched blank_first_missing] getEnvironment_def)
  have host': "isHost (this_hosts (new_PsychoJS default_options))
     (location_href (browser pavlovia_run [] projectless_config))"
    using pavlovia_run_isHost by simp
  have fetched': "getConfiguration (browser pavlovia_run [] projectless_config)
     (opt_configURL default_start_options) = Inr projectless_config"
    by simp
  have missing: "is_missing Gitlab_projectId projectless_config"
    by (simp add: projectless_config_def modern_config_def)
  have only: "missing_error g projectless_config =
     ErrString ''missing projectId in gitlab block in configuration''"
    if "is_missing g projectless_config" for g
    using that
    by (cases g) (simp_all add: missing_error_def projectless_config_def modern_config_def)
  show ?thesis
    using server_configuration_has_keys [THEN conjunct1, rule_format, OF conjI [OF ret]]
      server_configuration_has_keys [THEN conjunct2, rule_format,
        OF conjI [OF host' conjI [OF fetched' disjI2 [OF missing]]]]
    by (auto simp: only)
qed

text \<open>
  C4 as stated fails on a configuration whose pavlovia URL and gitlab projectId are the
  empty string: \<^verbatim>\<open>_configure\<close> accepts it with environment \<^verbatim>\<open>SERVER\<close>.
\<close>

theorem server_configuration_has_keys_counterexample:
  "fst (configure (browser pavlovia_run [] blank_config) ''config.json'' ''stroop''
          (new_PsychoJS default_options)) = Returns \<and>
   getEnvironment (snd (configure (browser pavlovia_run [] blank_config) ''config.json''
          ''stroop'' (new_PsychoJS default_options))) = Some SERVER \<and>
   map_option sessionURL
     (this_config (snd (configure (browser pavlovia_run [] blank_config) ''config.json''
          ''stroop'' (new_PsychoJS default_options)))) = Some (Some (JStr [])) \<and>
   map_option gitlabProjectId
     (this_config (snd (configure (browser pavlovia_run [] blank_config) ''config.json''
          ''stroop'' (new_PsychoJS default_options)))) = Some (Some (JStr [])) \<and>
   \<not> non_empty (Some (JStr []))"
proof -
  have host: "isHost (this_hosts (new_PsychoJS default_options))
     (location_href (browser pavlovia_run [] blank_config))"
    using pavlovia_run_isHost by simp
  have fetched: "getConfiguration (browser pavlovia_run [] blank_config) ''config.json'' =
     Inr blank_config"
    by simp
  have url: "sessionURL (update_legacy blank_config) = Some (JStr [])"
    by (simp add: sessionURL_def update_legacy_def blank_config_def modern_config_def)
  have project: "gitlabProjectId (update_legacy blank_config) = Some (JStr [])"
    by (simp add: gitlabProjectId_def update_legacy_def blank_config_def modern_config_def)
  have after: "map_option sessionURL
     (this_config (snd (configure (browser pavlovia_run [] blank_config) ''config.json''
          ''stroop'' (new_PsychoJS default_options)))) =
     Some (sessionURL (update_legacy blank_config))"
    "map_option gitlabProjectId
     (this_config (snd (configure (browser pavlovia_run [] blank_config) ''config.json''
          ''stroop'' (new_PsychoJS default_options)))) =
     Some (gitlabProjectId (update_legacy blank_config))"
    by (simp_all add: configure_accepts [OF host fetched blank_first_missing] sessionURL_def
        gitlabProjectId_def)
  have ret: "fst (configure (browser pavlovia_run [] blank_config) ''config.json'' ''stroop''
          (new_PsychoJS default_options)) = Returns"
    "getEnvironment (snd (configure (browser pavlovia_run [] blank_config) ''config.json''
          ''stroop'' (new_PsychoJS default_options))) = Some SERVER"
    by (simp_all add: configure_accepts [OF host fetched blank_first_missing] getEnvironment_def)
  show ?thesis
    using ret after url project by simp
qed

text \<open>
  C5. \<^verbatim>\<open>_configure\<close> leaves \<^verbatim>\<open>resultsUpload\<close> at \<^verbatim>\<open>{intervalId: -1, period: -1}\<close>. In every run
  whose configured period is not positive, \<^verbatim>\<open>start\<close> makes no \<^verbatim>\<open>setInterval\<close> call, whatever
  the session manager does. When moreover the session manager leaves an identifier \<^verbatim>\<open>-1\<close> as
  it is, and \<^verbatim>\<open>_configure\<close> has returned, the identifier is \<^verbatim>\<open>-1\<close> after \<^verbatim>\<open>start\<close>; \<^verbatim>\<open>quit\<close>, the
  closure \<^verbatim>\<open>onTerminate\<close> and the unload handler keep it so.
\<close>

theorem periodic_upload_off:
  "(configure e configURL nm s = (Returns, s') \<longrightarrow>
      get_resultsUpload s' =
        Some \<lparr> intervalId = - 1, period = - 1, lastUploadTimestamp = None \<rparr>) \<and>
   (period_off (snd (start e opts s)) \<longrightarrow>
      filter is_SetInterval (effects (snd (start e opts s))) =
        filter is_SetInterval (effects s)) \<and>
   (period_off (snd (start e opts s)) \<and>
    (\<forall>ps c c'. identifier_unset c \<and> openSession e ps c = Inr c' \<longrightarrow> identifier_unset c') \<and>
    filter is_SetInterval (effects s) = [] \<and>
    fst (configure e (opt_configURL opts) (opt_expName opts) s) = Returns \<longrightarrow>
      timer_unarmed (snd (start e opts s))) \<and>
   (timer_unarmed s \<longrightarrow>
      timer_unarmed (snd (quit e q s)) \<and>
      timer_unarmed (snd (onTerminate q s)) \<and>
      timer_unarmed (snd (unload s)))"
proof (intro conjI impI)
  assume "configure e configURL nm s = (Returns, s')"
  then show "get_resultsUpload s' =
      Some \<lparr> intervalId = - 1, period = - 1, lastUploadTimestamp = None \<rparr>"
    using configure_Returns by blast
next
  assume off: "period_off (snd (start e opts s))"
  have "period_off (snd (start e opts s)) \<longrightarrow>
      filter is_SetInterval (effects (snd (start e opts s))) =
        filter is_SetInterval (effects s)"
    by (rule start_establishes
        [where P = "\<lambda>s'. filter is_SetInterval (effects s') = filter is_SetInterval (effects s)"
          and Q = "\<lambda>s'. period_off s' \<longrightarrow>
            filter is_SetInterval (effects s') = filter is_SetInterval (effects s)"])
      (simp_all add: configure_frame steps_SetInterval start_session_period_off
        period_off_def steps_resultsUpload)
  then show "filter is_SetInterval (effects (snd (start e opts s))) =
      filter is_SetInterval (effects s)"
    using off by blast
next
  assume a: "period_off (snd (start e opts s)) \<and>
    (\<forall>ps c c'. identifier_unset c \<and> openSession e ps c = Inr c' \<longrightarrow> identifier_unset c') \<and>
    filter is_SetInterval (effects s) = [] \<and>
    fst (configure e (opt_configURL opts) (opt_expName opts) s) = Returns"
  then have keeps: "\<And>ps c c'. identifier_unset c \<Longrightarrow> openSession e ps c = Inr c' \<Longrightarrow>
      identifier_unset c'"
    by blast
  from a have "configure e (opt_configURL opts) (opt_expName opts) s =
      (Returns, snd (configure e (opt_configURL opts) (opt_expName opts) s))"
    by (metis prod.collapse)
  then have "get_resultsUpload (snd (configure e (opt_configURL opts) (opt_expName opts) s)) =
      Some \<lparr> intervalId = - 1, period = - 1, lastUploadTimestamp = None \<rparr>"
    using configure_Returns by blast
  then have configured:
    "timer_unarmed (snd (configure e (opt_configURL opts) (opt_expName opts) s))"
    using a by (simp add: timer_unarmed_def configure_frame)
  have "period_off (snd (start e opts s)) \<longrightarrow> timer_unarmed (snd (start e opts s))"
    using configured
    by (rule start_establishes
        [where P = timer_unarmed and Q = "\<lambda>s'. period_off s' \<longrightarrow> timer_unarmed s'"])
      (simp_all add: steps_unarmed start_session_unarmed [OF keeps] period_off_def
        steps_resultsUpload)
  then show "timer_unarmed (snd (start e opts s))"
    using a by blast
next
  assume u: "timer_unarmed s"
  then show "timer_unarmed (snd (quit e q s))"
    by (rule quit_preserves [where P = timer_unarmed]) (simp_all add: steps_unarmed)
  from u show "timer_unarmed (snd (onTerminate q s))" by (rule steps_unarmed)
  from u show "timer_unarmed (snd (unload s))" by (rule steps_unarmed)
qed

text \<open>
  Two runs on the server: one whose session manager writes the period \<^verbatim>\<open>0\<close>, and one whose
  session manager leaves the upload options as \<^verbatim>\<open>_configure\<close> made them.
\<close>

theorem periodic_upload_off_witness:
  "get_resultsUpload (snd (start (upload_every 0) default_start_options
      (new_PsychoJS default_options))) =
     Some \<lparr> intervalId = - 1, period = 0, lastUploadTimestamp = None \<rparr> \<and>
   filter is_SetInterval (effects (snd (start (upload_every 0) default_start_options
      (new_PsychoJS default_options)))) = [] \<and>
   timer_unarmed (snd (start (upload_every 0) default_start_options
      (new_PsychoJS default_options))) \<and>
   timer_unarmed (snd (quit (upload_every 0) default_quit_options
      (snd (start (upload_every 0) default_start_options (new_PsychoJS default_options))))) \<and>
   get_resultsUpload (snd (start (browser pavlovia_run [] modern_config) default_start_options
      (new_PsychoJS default_options))) =
     Some \<lparr> intervalId = - 1, period = - 1, lastUploadTimestamp = None \<rparr> \<and>
   timer_unarmed (snd (start (browser pavlovia_run [] modern_config) default_start_options
      (new_PsychoJS default_options)))"
proof -
  have fresh: "filter is_SetInterval (effects (new_PsychoJS default_options)) = []"
    by (simp add: new_PsychoJS_def)
  have host: "isHost (this_hosts (new_PsychoJS default_options))
      (location_href (upload_every 0))"
    using pavlovia_run_isHost by simp
  have fetched: "getConfiguration (upload_every 0) (opt_configURL default_start_options) =
     Inr modern_config"
    by simp
  have configured: "fst (configure (upload_every 0) (opt_configURL default_start_options)
      (opt_expName default_start_options) (new_PsychoJS default_options)) = Returns"
    by (simp add: configure_accepts [OF host fetched modern_first_missing])
  have keeps: "\<forall>ps c c'. identifier_unset c \<and> openSession (upload_every 0) ps c = Inr c' \<longrightarrow>
      identifier_unset c'"
    by (auto simp: identifier_unset_def upload_options_def split: option.splits block.splits)
  have off: "period_off (snd (start (upload_every 0) default_start_options
      (new_PsychoJS default_options)))"
    by (simp add: period_off_def upload_every_started)
  note inst = periodic_upload_off [of "upload_every 0" _ _ "new_PsychoJS default_options" _
      default_start_options]
  have quiet: "filter is_SetInterval (effects (snd (start (upload_every 0)
      default_start_options (new_PsychoJS default_options)))) = []"
    using inst [THEN conjunct2, THEN conjunct1, rule_format, OF off] fresh by simp
  have started: "timer_unarmed (snd (start (upload_every 0) default_start_options
      (new_PsychoJS default_options)))"
    using inst [THEN conjunct2, THEN conjunct2, THEN conjunct1, rule_format,
        OF conjI [OF off conjI [OF keeps conjI [OF fresh configured]]]] .
  have quitted: "timer_unarmed (snd (quit (upload_every 0) default_quit_options
      (snd (start (upload_every 0) default_start_options (new_PsychoJS default_options)))))"
    using periodic_upload_off [of "upload_every 0", THEN conjunct2, THEN conjunct2,
        THEN conjunct2, rule_format, OF started]
    by (rule conjunct1)
  have host': "isHost (this_hosts (new_PsychoJS default_options))
      (location_href (browser pavlovia_run [] modern_config))"
    using pavlovia_run_isHost by simp
  have fetched': "getConfiguration (browser pavlovia_run [] modern_config)
      (opt_configURL default_start_options) = Inr modern_config"
    by simp
  note conf = configure_accepts [OF host' fetched' modern_first_missing,
      of "opt_expName default_start_options"]
  have configured': "fst (configure (browser pavlovia_run [] modern_config)
      (opt_configURL default_start_options) (opt_expName default_start_options)
      (new_PsychoJS default_options)) = Returns"
    by (simp add: conf)
  have keeps': "\<forall>ps c c'. identifier_unset c \<and>
      openSession (browser pavlovia_run [] modern_config) ps c = Inr c' \<longrightarrow> identifier_unset c'"
    by (auto simp: browser_def identifier_unset_def upload_options_def)
  have upd: "update_legacy modern_config = modern_config"
    by (simp add: update_legacy_def modern_config_def)
  have options: "get_resultsUpload (snd (start (browser pavlovia_run [] modern_config)
      default_start_options (new_PsychoJS default_options))) =
     Some \<lparr> intervalId = - 1, period = - 1, lastUploadTimestamp = None \<rparr>"
    unfolding start_def conf upd
    by (simp add: step_defs catch_def getEnvironment_def browser_def
        get_resultsUpload_config upload_options_def message_board_def new_PsychoJS_def
        default_options_def modern_config_def default_start_options_def)
  then have off': "period_off (snd (start (browser pavlovia_run [] modern_config)
      default_start_options (new_PsychoJS default_options)))"
    by (simp add: period_off_def)
  have started': "timer_unarmed (snd (start (browser pavlovia_run [] modern_config)
      default_start_options (new_PsychoJS default_options)))"
    using periodic_upload_off [of "browser pavlovia_run [] modern_config" _ _
        "new_PsychoJS default_options" _ default_start_options,
        THEN conjunct2, THEN conjunct2, THEN conjunct1, rule_format,
        OF conjI [OF off' conjI [OF keeps' conjI [OF fresh configured']]]] .
  show ?thesis
    using quiet started quitted started' options by (simp add: upload_every_started)
qed

text \<open>
  C6. After \<^verbatim>\<open>_configure\<close> the message board is the map from the query parameters: its keys
  are the keys of the parameters that begin with a double underscore, each mapped to a
  value the parameters give it (the last one, when a key is repeated). \<^verbatim>\<open>start\<close> leaves the
  board as its call of \<^verbatim>\<open>_configure\<close> made it, and \<^verbatim>\<open>quit\<close>, \<^verbatim>\<open>onTerminate\<close>, the unload
  handler, \<^verbatim>\<open>openWindow\<close> and \<^verbatim>\<open>setRedirectUrls\<close> do not change it.
\<close>

theorem server_message_board:
  "(configure e configURL nm s = (Returns, s') \<longrightarrow>
      this_serverMsg s' = Some (message_board (getUrlParameters e))) \<and>
   dom (message_board ps) = {k \<in> fst ` set ps. prefix ''__'' k} \<and>
   (\<forall>k v. message_board ps k = Some v \<longrightarrow> (k, v) \<in> set ps) \<and>
   this_serverMsg (snd (start e opts s)) =
     this_serverMsg (snd (configure e (opt_configURL opts) (opt_expName opts) s)) \<and>
   this_serverMsg (snd (quit e q s)) = this_serverMsg s \<and>
   this_serverMsg (snd (onTerminate q s)) = this_serverMsg s \<and>
   this_serverMsg (snd (unload s)) = this_serverMsg s \<and>
   this_serverMsg (snd (openWindow s)) = this_serverMsg s \<and>
   this_serverMsg (setRedirectUrls completionUrl cancellationUrl s) = this_serverMsg s"
proof -
  have conf: "this_serverMsg s' = Some (message_board (getUrlParameters e))"
    if "configure e configURL nm s = (Returns, s')"
    using configure_Returns [OF that] by blast
  have started: "this_serverMsg (snd (start e opts s)) =
     this_serverMsg (snd (configure e (opt_configURL opts) (opt_expName opts) s))"
    by (rule start_preserves [where P = "\<lambda>s'. this_serverMsg s' =
        this_serverMsg (snd (configure e (opt_configURL opts) (opt_expName opts) s))"])
      (simp_all add: steps_serverMsg)
  have quitted: "this_serverMsg (snd (quit e q s)) = this_serverMsg s"
    by (rule quit_preserves [where P = "\<lambda>s'. this_serverMsg s' = this_serverMsg s"])
      (simp_all add: steps_serverMsg)
  show ?thesis
    using conf started quitted message_board_Some [of ps]
    by (simp add: message_board_dom steps_serverMsg openWindow_def setRedirectUrls_def)
qed

theorem server_message_board_witness:
  "this_serverMsg (snd (configure pilot ''config.json'' ''UNKNOWN''
      (new_PsychoJS default_options))) = Some (message_board pilot_parameters) \<and>
   this_serverMsg (snd (start pilot default_start_options (new_PsychoJS default_options))) =
     Some (message_board pilot_parameters) \<and>
   message_board pilot_parameters ''__pilotToken'' = Some ''xyz'' \<and>
   (''__pilotToken'', ''xyz'') \<in> set pilot_parameters \<and>
   message_board pilot_parameters ''__noOutput'' = Some [] \<and>
   message_board pilot_parameters ''participant'' = None"
proof -
  note inst = server_message_board [of pilot "''config.json''" "''UNKNOWN''"
      "new_PsychoJS default_options"
      "snd (configure pilot ''config.json'' ''UNKNOWN'' (new_PsychoJS default_options))"
      pilot_parameters default_start_options]
  have configured: "this_serverMsg (snd (configure pilot ''config.json'' ''UNKNOWN''
      (new_PsychoJS default_options))) = Some (message_board pilot_parameters)"
    using inst [THEN conjunct1, rule_format, OF pilot_configured] by simp
  have "this_serverMsg (snd (start pilot default_start_options
      (new_PsychoJS default_options))) =
      this_serverMsg (snd (configure pilot (opt_configURL default_start_options)
        (opt_expName default_start_options) (new_PsychoJS default_options)))"
    using inst [THEN conjunct2, THEN conjunct2, THEN conjunct2] by (rule conjunct1)
  also have "\<dots> = this_serverMsg (snd (configure pilot ''config.json'' ''UNKNOWN''
      (new_PsychoJS default_options)))"
    by (simp add: default_start_options_def)
  finally have started: "this_serverMsg (snd (start pilot default_start_options
      (new_PsychoJS default_options))) = Some (message_board pilot_parameters)"
    by (simp only: configured)
  have member: "(''__pilotToken'', ''xyz'') \<in> set pilot_parameters"
    using inst [THEN conjunct2, THEN conjunct2, THEN conjunct1, rule_format,
        OF pilot_board(1)] .
  show ?thesis
    using configured started member pilot_board by (intro conjI)
qed

text \<open>
  C7. When the query parameters contain \<^verbatim>\<open>__noOutput\<close>, a \<^verbatim>\<open>_configure\<close> that returns has
  set the save-results flag to false; with the flag false \<^verbatim>\<open>quit\<close> saves no results and
  flushes no log, and neither does the unload handler; in a run from the constructor
  through \<^verbatim>\<open>start\<close> to \<^verbatim>\<open>quit\<close> no result is saved and no log flushed at all; and \<^verbatim>\<open>start\<close>
  makes no \<^verbatim>\<open>setInterval\<close> call, whatever the period, so that no periodic upload of the
  results is armed in such a run, up to the end of \<^verbatim>\<open>quit\<close> and in the unload handler.
\<close>

theorem no_output:
  assumes "''__noOutput'' \<in> fst ` set (getUrlParameters e)"
  shows "(configure e configURL nm s = (Returns, s') \<longrightarrow> \<not> this_saveResults s') \<and>
         (\<not> this_saveResults s \<longrightarrow>
            saves (snd (quit e q s)) = saves s \<and>
            \<not> this_saveResults (snd (quit e q s)) \<and>
            saves (snd (unload s)) = saves s) \<and>
         saves (snd (quit e q (snd (start e opts (new_PsychoJS os))))) = [] \<and>
         filter is_SetInterval (effects (snd (start e opts s))) =
           filter is_SetInterval (effects s) \<and>
         filter is_SetInterval
           (effects (snd (quit e q (snd (start e opts (new_PsychoJS os)))))) = [] \<and>
         filter is_SetInterval
           (effects (snd (unload (snd (start e opts (new_PsychoJS os)))))) = []"
proof -
  have "''__noOutput'' \<in> dom (message_board (getUrlParameters e))"
    using assms by (simp add: message_board_dom)
  then have flag: "message_board (getUrlParameters e) ''__noOutput'' \<noteq> None"
    by blast
  have conf: "\<not> this_saveResults s'" if "configure e configURL nm s = (Returns, s')"
    for configURL nm s s'
    using configure_Returns [OF that] flag by blast
  have quitted: "saves (snd (quit e q s)) = xs \<and> \<not> this_saveResults (snd (quit e q s))"
    if "saves s = xs \<and> \<not> this_saveResults s" for s xs
    using that
    by (rule quit_preserves [where P = "\<lambda>s'. saves s' = xs \<and> \<not> this_saveResults s'"])
      (simp_all add: steps_saves steps_saveResults)
  have unarmed: "filter is_SetInterval (effects (snd (start e opts s))) =
      filter is_SetInterval (effects s)" for s
  proof (cases "fst (configure e (opt_configURL opts) (opt_expName opts) s)")
    case Returns
    let ?c = "configure e (opt_configURL opts) (opt_expName opts) s"
    from Returns have "?c = (Returns, snd ?c)"
      by (metis prod.collapse)
    then have "filter is_SetInterval (effects (snd ?c)) = filter is_SetInterval (effects s) \<and>
        \<not> this_saveResults (snd ?c)"
      using conf by (simp add: configure_frame)
    then have "filter is_SetInterval (effects (snd (start e opts s))) =
        filter is_SetInterval (effects s) \<and> \<not> this_saveResults (snd (start e opts s))"
      by (rule start_preserves [where P = "\<lambda>s'. filter is_SetInterval (effects s') =
          filter is_SetInterval (effects s) \<and> \<not> this_saveResults s'"])
        (simp_all add: steps_SetInterval steps_saveResults)
    then show ?thesis
      by (rule conjunct1)
  next
    case (Throws err)
    let ?c = "configure e (opt_configURL opts) (opt_expName opts) s"
    from Throws have "?c = (Throws err, snd ?c)"
      by (metis prod.collapse)
    then have "start e opts s = (Throws (start_error err), (snd ?c)\<lparr>this_status := ERROR\<rparr>)"
      by (rule start_configure_throws)
    then show ?thesis
      by (simp add: configure_frame)
  qed
  have fresh_timer: "filter is_SetInterval (effects (snd (start e opts (new_PsychoJS os)))) = []"
    by (simp add: unarmed) (simp add: new_PsychoJS_def)
  then have quit_timer: "filter is_SetInterval
      (effects (snd (quit e q (snd (start e opts (new_PsychoJS os)))))) = []"
    by (rule quit_preserves [where P = "\<lambda>s'. filter is_SetInterval (effects s') = []"])
      (simp_all add: steps_SetInterval)
  let ?c = "configure e (opt_configURL opts) (opt_expName opts) (new_PsychoJS os)"
  have fresh: "saves (snd ?c) = []" "this_experiment (snd ?c) = None"
    by (simp_all add: configure_frame) (simp_all add: saves_def new_PsychoJS_def)
  have run: "saves (snd (quit e q (snd (start e opts (new_PsychoJS os))))) = []"
  proof (cases "fst ?c")
    case Returns
    then have "?c = (Returns, snd ?c)"
      by (metis prod.collapse)
    then have "saves (snd ?c) = [] \<and> \<not> this_saveResults (snd ?c)"
      using conf fresh(1) by blast
    then have "saves (snd (start e opts (new_PsychoJS os))) = [] \<and>
        \<not> this_saveResults (snd (start e opts (new_PsychoJS os)))"
      by (rule start_preserves [where P = "\<lambda>s'. saves s' = [] \<and> \<not> this_saveResults s'"])
        (simp_all add: steps_saves steps_saveResults)
    then show ?thesis
      using quitted by blast
  next
    case (Throws err)
    then have "?c = (Throws err, snd ?c)"
      by (metis prod.collapse)
    then have "start e opts (new_PsychoJS os) =
        (Throws (start_error err), (snd ?c)\<lparr>this_status := ERROR\<rparr>)"
      by (rule start_configure_throws)
    then show ?thesis
      using fresh by (simp add: quit_None)
  qed
  show ?thesis
    using conf quitted run unarmed quit_timer fresh_timer
    by (simp add: steps_saves steps_SetInterval)
qed

theorem no_output_witness:
  "\<not> this_saveResults (snd (configure pilot ''config.json'' ''UNKNOWN''
      (new_PsychoJS default_options))) \<and>
   saves (snd (quit pilot default_quit_options
      (snd (start pilot default_start_options (new_PsychoJS default_options))))) = [] \<and>
   filter is_SetInterval (effects (snd (start pilot default_start_options
      (new_PsychoJS default_options)))) = [] \<and>
   filter is_SetInterval (effects (snd (quit pilot default_quit_options
      (snd (start pilot default_start_options (new_PsychoJS default_options)))))) = []"
proof -
  have flag: "''__noOutput'' \<in> fst ` set (getUrlParameters pilot)"
    unfolding pilot_simps pilot_parameters_def
    by (simp only: list.set image_insert fst_conv insert_iff simp_thms)
  note inst = no_output [OF flag, of "''config.json''" "''UNKNOWN''"
      "new_PsychoJS default_options"
      "snd (configure pilot ''config.json'' ''UNKNOWN'' (new_PsychoJS default_options))"
      default_quit_options default_start_options default_options]
  have configured: "\<not> this_saveResults (snd (configure pilot ''config.json'' ''UNKNOWN''
      (new_PsychoJS default_options)))"
    using inst [THEN conjunct1, rule_format, OF pilot_configured] .
  have run: "saves (snd (quit pilot default_quit_options
      (snd (start pilot default_start_options (new_PsychoJS default_options))))) = []"
    using inst [THEN conjunct2, THEN conjunct2] by (rule conjunct1)
  have "filter is_SetInterval (effects (snd (start pilot default_start_options
      (new_PsychoJS default_options)))) =
      filter is_SetInterval (effects (new_PsychoJS default_options))"
    using inst [THEN conjunct2, THEN conjunct2, THEN conjunct2] by (rule conjunct1)
  then have quiet: "filter is_SetInterval (effects (snd (start pilot default_start_options
      (new_PsychoJS default_options)))) = []"
    by (simp add: new_PsychoJS_def)
  have quitted: "filter is_SetInterval (effects (snd (quit pilot default_quit_options
      (snd (start pilot default_start_options (new_PsychoJS default_options)))))) = []"
    using inst [THEN conjunct2, THEN conjunct2, THEN conjunct2, THEN conjunct2]
    by (rule conjunct1)
  show ?thesis
    using configured run quiet quitted by (intro conjI)
qed

text \<open>
  C8. When the page address starts with none of the approved hosts, \<^verbatim>\<open>_configure\<close> returns
  with status \<^verbatim>\<open>CONFIGURED\<close> and a configuration whose environment is \<^verbatim>\<open>LOCAL\<close>, whose save
  format is CSV, which keeps incomplete results and carries the experiment name the caller
  gave; no call leaves the class, so no configuration is fetched.
\<close>

theorem configure_local_run:
  assumes "\<not> isHost (this_hosts s) (location_href e)"
  shows "\<exists>s' c ex.
     configure e configURL nm s = (Returns, s') \<and>
     this_status s' = CONFIGURED \<and>
     this_config s' = Some c \<and>
     environment c = Some LOCAL \<and>
     experiment' c = Some (Object ex) \<and>
     saveFormat ex = Some CSV \<and>
     saveIncompleteResults ex = Some True \<and>
     name ex = Some (JStr nm) \<and>
     effects s' = effects s"
  by (simp add: configure_local_eq [OF assms])

theorem configure_local_run_witness:
  "\<exists>s' c ex.
     configure (browser local_run [] modern_config) ''config.json'' ''stroop''
       (new_PsychoJS default_options) = (Returns, s') \<and>
     this_status s' = CONFIGURED \<and>
     this_config s' = Some c \<and>
     environment c = Some LOCAL \<and>
     experiment' c = Some (Object ex) \<and>
     saveFormat ex = Some CSV \<and>
     saveIncompleteResults ex = Some True \<and>
     name ex = Some (JStr ''stroop'') \<and>
     effects s' = []"
  using configure_local_run [of "new_PsychoJS default_options" "browser local_run [] modern_config"
      "''config.json''" "''stroop''"] local_run_not_isHost
  by (simp add: new_PsychoJS_def)

text \<open>
  C9. \<^verbatim>\<open>PsychoJS.Status.STOPPED\<close> and \<^verbatim>\<open>PsychoJS.Status.FINISHED\<close> are the same symbol, both
  \<^verbatim>\<open>Symbol.for("FINISHED")\<close>: a comparison against one gives what the comparison against the
  other gives, and an object whose status was set to \<^verbatim>\<open>STOPPED\<close>, as \<^verbatim>\<open>quit\<close> does first, is the
  object whose status was set to \<^verbatim>\<open>FINISHED\<close>. The eight other entries are pairwise different.
\<close>

theorem status_stopped_is_finished:
  "STOPPED = FINISHED \<and>
   (\<forall>x. (x = STOPPED) = (x = FINISHED)) \<and>
   (\<forall>s. s\<lparr>this_status := STOPPED\<rparr> = s\<lparr>this_status := FINISHED\<rparr>) \<and>
   distinct [CONFIGURED, CONFIGURING, ERROR, FINISHED, NOT_CONFIGURED, NOT_STARTED, PAUSED,
             STARTED]"
  by (simp add: Status_defs)

text \<open>
  C10. For every configuration fetched from an approved host that has a legacy
  \<^verbatim>\<open>psychoJsManager\<close> block, \<^verbatim>\<open>_configure\<close> does what it does on the same configuration with
  the block deleted and the pavlovia block \<^verbatim>\<open>{URL: "https://pavlovia.org"}\<close> in its place: it
  never throws for a missing pavlovia block or URL, and when the experiment name and fullpath
  and the gitlab projectId are there it returns with status \<^verbatim>\<open>CONFIGURED\<close>, environment
  \<^verbatim>\<open>SERVER\<close>, no legacy block and that pavlovia block.
\<close>

theorem configure_legacy:
  assumes "isHost (this_hosts s) (location_href e)"
    and "getConfiguration e configURL = Inr fetched"
    and "psychoJsManager fetched \<noteq> None"
  shows "configure e configURL nm s =
           configure
             (e\<lparr>getConfiguration := \<lambda>url. Inr
                (fetched\<lparr>psychoJsManager := None,
                         pavlovia := Some (Object \<lparr>URL = Some (JStr ''https://pavlovia.org'')\<rparr>)\<rparr>)\<rparr>)
             configURL nm s \<and>
         fst (configure e configURL nm s) \<noteq>
           Throws (configure_error (ErrString (missing_message Pavlovia_block))) \<and>
         fst (configure e configURL nm s) \<noteq>
           Throws (configure_error (ErrString (missing_message Pavlovia_URL))) \<and>
         (\<not> is_missing Experiment_name fetched \<and> \<not> is_missing Experiment_fullpath fetched \<and>
          \<not> is_missing Gitlab_projectId fetched \<longrightarrow>
            (\<exists>s' c. configure e configURL nm s = (Returns, s') \<and>
               this_status s' = CONFIGURED \<and>
               this_config s' = Some c \<and>
               environment c = Some SERVER \<and>
               psychoJsManager c = None \<and>
               pavlovia c = Some (Object \<lparr>URL = Some (JStr ''https://pavlovia.org'')\<rparr>)))"
proof -
  let ?modern = "fetched\<lparr>psychoJsManager := None,
                         pavlovia := Some (Object \<lparr>URL = Some (JStr ''https://pavlovia.org'')\<rparr>)\<rparr>"
  have legacy: "update_legacy fetched = ?modern"
    using assms(3) by (rule update_legacy_legacy)
  have present: "\<not> is_missing Pavlovia_block (update_legacy fetched)"
    "\<not> is_missing Pavlovia_URL (update_legacy fetched)"
    by (simp_all add: legacy)
  have same: "configure e configURL nm s =
      configure (e\<lparr>getConfiguration := \<lambda>url. Inr ?modern\<rparr>) configURL nm s"
    using configure_depends_on_update_legacy [OF assms(2)] by (simp add: legacy)
  have not_pavlovia:
    "fst (configure e configURL nm s) \<noteq>
       Throws (configure_error (ErrString (missing_message Pavlovia_block))) \<and>
     fst (configure e configURL nm s) \<noteq>
       Throws (configure_error (ErrString (missing_message Pavlovia_URL)))"
  proof (cases "first_missing (update_legacy fetched)")
    case None
    then show ?thesis by (simp add: configure_accepts [OF assms(1,2)])
  next
    case (Some g)
    then have "g \<noteq> Pavlovia_block" "g \<noteq> Pavlovia_URL"
      using present first_missing_Some by blast+
    then show ?thesis
      using missing_message_inj
      by (auto simp: configure_rejects [OF assms(1,2) Some] configure_error_def
          missing_error_def)
  qed
  have accepted: "\<exists>s' c. configure e configURL nm s = (Returns, s') \<and>
               this_status s' = CONFIGURED \<and>
               this_config s' = Some c \<and>
               environment c = Some SERVER \<and>
               psychoJsManager c = None \<and>
               pavlovia c = Some (Object \<lparr>URL = Some (JStr ''https://pavlovia.org'')\<rparr>)"
    if "\<not> is_missing Experiment_name fetched \<and> \<not> is_missing Experiment_fullpath fetched \<and>
          \<not> is_missing Gitlab_projectId fetched"
  proof -
    have "valid_response (update_legacy fetched)"
      using that
      by (auto simp: valid_response_def required_fields_def legacy
          split: option.splits block.splits)
    then have none: "first_missing (update_legacy fetched) = None"
      by (simp add: first_missing_None_iff)
    show ?thesis
      by (simp add: configure_accepts [OF assms(1,2) none]) (simp add: legacy)
  qed
  show ?thesis
    using same not_pavlovia accepted by blast
qed

theorem configure_legacy_witness:
  "configure (browser pavlovia_run [] legacy_config) ''config.json'' ''stroop''
     (new_PsychoJS default_options) =
   configure
     ((browser pavlovia_run [] legacy_config)
        \<lparr>getConfiguration := \<lambda>url. Inr
           (legacy_config\<lparr>psychoJsManager := None,
              pavlovia := Some (Object \<lparr>URL = Some (JStr ''https://pavlovia.org'')\<rparr>)\<rparr>)\<rparr>)
     ''config.json'' ''stroop'' (new_PsychoJS default_options) \<and>
   (\<exists>s' c. configure (browser pavlovia_run [] legacy_config) ''config.json'' ''stroop''
       (new_PsychoJS default_options) = (Returns, s') \<and>
     this_status s' = CONFIGURED \<and>
     this_config s' = Some c \<and>
     environment c = Some SERVER \<and>
     psychoJsManager c = None \<and>
     pavlovia c = Some (Object \<lparr>URL = Some (JStr ''https://pavlovia.org'')\<rparr>))"
proof -
  have host: "isHost (this_hosts (new_PsychoJS default_options))
     (location_href (browser pavlovia_run [] legacy_config))"
    using pavlovia_run_isHost by simp
  have fetched: "getConfiguration (browser pavlovia_run [] legacy_config) ''config.json'' =
     Inr legacy_config"
    by simp
  have legacy: "psychoJsManager legacy_config \<noteq> None"
    by (simp add: legacy_config_def)
  have present: "\<not> is_missing Experiment_name legacy_config \<and>
     \<not> is_missing Experiment_fullpath legacy_config \<and>
     \<not> is_missing Gitlab_projectId legacy_config"
    by (simp add: legacy_config_def modern_config_def)
  show ?thesis
    using configure_legacy [OF host fetched legacy, of "''stroop''"] present by blast
qed

end
